theory Spec2Isabelle
  imports Complex_Main
begin

section \<open>Values of the source language\<close>

text \<open>
  A JavaScript \<^verbatim>\<open>number\<close> is an IEEE double: a finite value (every finite double is a
  rational; the two zeros are identified, as \<^verbatim>\<open>===\<close> identifies them), a NaN or one of
  the two infinities.
\<close>

datatype number = Finite rat | NaN | PosInfinity | NegInfinity

text \<open>
  Rounding to the nearest double, ties to the even significand. A finite double other
  than zero is \<open>m * 2 ^ e\<close> with \<open>m < 2 ^ 53\<close> and \<open>- 1074 \<le> e \<le> 971\<close>; a normal one
  has \<open>2 ^ 52 \<le> m\<close>. What rounds to \<open>2 ^ 1024\<close> or beyond is an infinity; what rounds
  to less than half of \<open>2 ^ - 1074\<close> is zero.
\<close>

definition pow2 :: "int \<Rightarrow> rat" where
  "pow2 k = (if 0 \<le> k then 2 ^ nat k else 1 / 2 ^ nat (- k))"

fun bit_length :: "int \<Rightarrow> int" where
  "bit_length n = (if n \<le> 0 then 0 else 1 + bit_length (n div 2))"

declare bit_length.simps [simp del]

text \<open>\<open>\<lfloor>log\<^sub>2 a\<rfloor>\<close> of a positive rational, from the bit lengths of its numerator and denominator.\<close>

definition floor_log2 :: "rat \<Rightarrow> int" where
  "floor_log2 a =
     (let (p, q) = quotient_of a;
          k = bit_length p - bit_length q
      in if pow2 k \<le> a then k else k - 1)"

definition round_half_even :: "rat \<Rightarrow> int" where
  "round_half_even y =
     (let f = \<lfloor>y\<rfloor>; d = y - of_int f
      in if d < 1 / 2 then f
         else if 1 / 2 < d then f + 1
         else if even f then f else f + 1)"

definition to_double :: "rat \<Rightarrow> number" where
  "to_double x =
     (if x = 0 then Finite 0
      else
        (let a = \<bar>x\<bar>;
             e = max (floor_log2 a - 52) (- 1074);
             m = round_half_even (a / pow2 e)
         in if 971 < e \<or> (e = 971 \<and> m = 2 ^ 53) then
              (if 0 < x then PosInfinity else NegInfinity)
            else Finite ((if 0 < x then 1 else - 1) * of_int m * pow2 e)))"

text \<open>
  The \<^verbatim>\<open>*\<close> of JavaScript on numbers: the exact product of two finite doubles,
  rounded; NaN from a NaN and from zero times an infinity; an infinity by the rule of
  signs otherwise.
\<close>

fun js_times :: "number \<Rightarrow> number \<Rightarrow> number" where
  "js_times (Finite a) (Finite b) = to_double (a * b)"
| "js_times NaN _ = NaN"
| "js_times _ NaN = NaN"
| "js_times (Finite a) PosInfinity =
     (if a = 0 then NaN else if 0 < a then PosInfinity else NegInfinity)"
| "js_times (Finite a) NegInfinity =
     (if a = 0 then NaN else if 0 < a then NegInfinity else PosInfinity)"
| "js_times PosInfinity (Finite b) =
     (if b = 0 then NaN else if 0 < b then PosInfinity else NegInfinity)"
| "js_times NegInfinity (Finite b) =
     (if b = 0 then NaN else if 0 < b then NegInfinity else PosInfinity)"
| "js_times PosInfinity PosInfinity = PosInfinity"
| "js_times PosInfinity NegInfinity = NegInfinity"
| "js_times NegInfinity PosInfinity = NegInfinity"
| "js_times NegInfinity NegInfinity = PosInfinity"

text \<open>
  Values typed \<^verbatim>\<open>any\<close> in the source (webhook bodies, parameters, results, error data)
  are JSON values. A numeric field of a decoded JSON body is a finite number. The value
  \<^verbatim>\<open>undefined\<close> is \<open>None\<close> of an option type throughout.
\<close>

datatype json =
    JNull
  | JBool bool
  | JNum rat
  | JStr string
  | JArr "json list"
  | JObj "(string \<times> json) list"

section \<open>Canonical payment status (src/types.ts)\<close>

datatype PaymentStatus = PENDING | SUCCESS | FAILED | CANCELLED | REFUNDED

section \<open>Status normalizers\<close>

text \<open>
  \<^verbatim>\<open>getStatusFromPaymeReceiptState(paymeStateCode?: number)\<close> (payme/utils.ts): a
  \<^verbatim>\<open>switch\<close> with strict equality against the literals 0 to 6, everything else
  falling to \<^verbatim>\<open>default\<close>.
\<close>

fun getStatusFromPaymeReceiptState :: "number option \<Rightarrow> PaymentStatus" where
  "getStatusFromPaymeReceiptState (Some (Finite c)) =
     (if c = 0 then PENDING
      else if c = 1 then PENDING
      else if c = 2 then SUCCESS
      else if c = 3 then CANCELLED
      else if c = 4 then CANCELLED
      else if c = 5 then PENDING
      else if c = 6 then REFUNDED
      else FAILED)"
| "getStatusFromPaymeReceiptState _ = FAILED"

text \<open>\<^verbatim>\<open>getStatusFromClickCode(clickStatusCode?: number)\<close> (click/status.ts).\<close>

fun getStatusFromClickCode :: "number option \<Rightarrow> PaymentStatus" where
  "getStatusFromClickCode (Some (Finite c)) =
     (if c = 0 \<or> c = 1 then PENDING
      else if c = 2 then SUCCESS
      else if c = 3 \<or> c = 5 then CANCELLED
      else if c = 4 then REFUNDED
      else FAILED)"
| "getStatusFromClickCode _ = FAILED"

section \<open>Error taxonomy (src/errors)\<close>

text \<open>
  What a JavaScript \<^verbatim>\<open>throw\<close> can carry. \<^verbatim>\<open>PaymeError\<close> (message, code, data) and
  \<^verbatim>\<open>ClickError\<close> (message, code) extend \<^verbatim>\<open>BasePaymentError\<close>, which extends
  \<^verbatim>\<open>Error\<close>; \<open>TypeError\<close> is the engine's own error for a property read on
  \<^verbatim>\<open>null\<close> or \<^verbatim>\<open>undefined\<close>; \<open>Thrown v\<close> is any value that is not an
  \<^verbatim>\<open>Error\<close> object (JavaScript lets any value be thrown).
\<close>

datatype thrown =
    PaymeError string rat "json option"
  | ClickError string rat
  | Error string
  | TypeError string
  | Thrown "json option"

text \<open>\<^verbatim>\<open>PaymeJsonRpcError\<close> (payme/types.ts); the code reads \<^verbatim>\<open>message\<close> with \<^verbatim>\<open>?.\<close>.\<close>

record LocalizedMessage =
  ru :: "string option"
  uz :: "string option"
  en :: "string option"

record PaymeJsonRpcError =
  err_code :: rat
  err_message :: "LocalizedMessage option"
  err_data :: "json option"

text \<open>
  \<^verbatim>\<open>a || b\<close> on an optional string: \<^verbatim>\<open>a\<close> when it is defined and not empty,
  \<^verbatim>\<open>b\<close> otherwise.
\<close>

fun js_or :: "string option \<Rightarrow> string \<Rightarrow> string" where
  "js_or None d = d"
| "js_or (Some s) d = (if s = [] then d else s)"

text \<open>\<^verbatim>\<open>error.message?.k\<close>.\<close>

definition opt_field :: "('a \<Rightarrow> 'b option) \<Rightarrow> 'a option \<Rightarrow> 'b option" where
  "opt_field f m = (case m of None \<Rightarrow> None | Some x \<Rightarrow> f x)"

text \<open>
  \<^verbatim>\<open>PaymeError.fromJsonRpcError\<close>:
  \<^verbatim>\<open>error.message?.en || error.message?.ru || error.message?.uz || 'Unknown Payme Error'\<close>.
\<close>

definition fromJsonRpcError :: "PaymeJsonRpcError \<Rightarrow> thrown" where
  "fromJsonRpcError e =
     (let message =
            js_or (opt_field en (err_message e))
              (js_or (opt_field ru (err_message e))
                (js_or (opt_field uz (err_message e)) ''Unknown Payme Error''))
      in PaymeError message (err_code e) (err_data e))"

text \<open>
  The \<^verbatim>\<open>message\<close> of an \<^verbatim>\<open>Error\<close> object; \<open>None\<close> for a thrown value that is
  not an \<^verbatim>\<open>Error\<close> object (\<^verbatim>\<open>instanceof Error\<close> is false of it).
\<close>

fun error_message :: "thrown \<Rightarrow> string option" where
  "error_message (PaymeError m _ _) = Some m"
| "error_message (ClickError m _) = Some m"
| "error_message (Error m) = Some m"
| "error_message (TypeError m) = Some m"
| "error_message (Thrown _) = None"

section \<open>Payme client (src/payme/PaymeClient.ts)\<close>

record PaymeConfig =
  merchantId :: string
  checkoutKey :: string
  merchantApiSecret :: string
  testMode :: "bool option"

text \<open>\<^verbatim>\<open>ProcessPaymentParams\<close> (src/types.ts); the amount is a \<^verbatim>\<open>number\<close>.\<close>

record ProcessPaymentParams =
  cardToken :: string
  amount :: number
  orderId :: string

text \<open>
  \<^verbatim>\<open>Receipt\<close> and the result that carries it, as the decoded JSON may be: the
  \<^verbatim>\<open>_id\<close> may be missing, which the client tests, and so may the \<^verbatim>\<open>receipt\<close>
  itself, which the client reads without a test (\<open>None\<close>: the result has no receipt).
\<close>

record Receipt =
  receipt_id :: "string option"
  create_time :: rat
  pay_time :: rat
  cancel_time :: rat
  state :: rat
  receipt_amount :: rat

record PaymeCreateReceiptResult =
  receipt :: "Receipt option"

record PaymeCreateReceiptParams =
  cr_amount :: number
  cr_account_order_id :: string
  cr_description :: string

record PaymePayReceiptParams =
  pay_id :: string
  pay_token :: string

datatype rpc_params =
    CreateReceiptParams PaymeCreateReceiptParams
  | PayReceiptParams PaymePayReceiptParams

record PaymeJsonRpcRequest =
  req_id :: string
  req_method :: string
  req_params :: rpc_params

record 'r PaymeJsonRpcResponse =
  resp_id :: "json option"
  resp_result :: "'r option"
  resp_error :: "PaymeJsonRpcError option"

record ProcessedReceiptResult =
  transactionId :: "string option"
  status :: PaymentStatus
  pr_receipt :: Receipt

text \<open>
  One POST as the transport saw it: the headers and the JSON-RPC body.
\<close>

record PaymeHttpCall =
  call_headers :: "(string \<times> string) list"
  call_body :: PaymeJsonRpcRequest

text \<open>
  The world outside the client. \<open>fresh_request_id n\<close> is the value of
  \<^verbatim>\<open>`${Date.now()}-${Math.floor(Math.random() * 1e6)}`\<close> at the \<open>n\<close>-th request;
  \<open>http_post n call\<close> is what \<^verbatim>\<open>HttpClient.post\<close> does at the \<open>n\<close>-th request: it
  throws, or it returns the provider's decoded response. The provider may answer any
  way it likes, also depending on what it was sent. \<open>property_read_text k\<close> is the
  text of the engine's \<^verbatim>\<open>TypeError\<close> for reading the property \<open>k\<close> of
  \<^verbatim>\<open>undefined\<close>.
\<close>

record 'r PaymeEnv =
  fresh_request_id :: "nat \<Rightarrow> string"
  http_post :: "nat \<Rightarrow> PaymeHttpCall \<Rightarrow> thrown + 'r PaymeJsonRpcResponse"
  property_read_text :: "string \<Rightarrow> string"

text \<open>
  \<^verbatim>\<open>PaymeClient.request\<close>. The state threaded through is the list of POSTs issued so
  far, oldest first.
\<close>

definition PaymeClient_request ::
  "PaymeConfig \<Rightarrow> 'r PaymeEnv \<Rightarrow> string \<Rightarrow> rpc_params \<Rightarrow> PaymeHttpCall list
     \<Rightarrow> (thrown + 'r) \<times> PaymeHttpCall list" where
  "PaymeClient_request config env method params sent =
     (let requestId = fresh_request_id env (length sent);
          requestBody = \<lparr>req_id = requestId, req_method = method, req_params = params\<rparr>;
          call = \<lparr>call_headers = [(''X-Auth'', checkoutKey config)],
                  call_body = requestBody\<rparr>;
          sent' = sent @ [call]
      in case http_post env (length sent) call of
           Inl e \<Rightarrow> (Inl e, sent')
         | Inr response \<Rightarrow>
             (case resp_error response of
                Some err \<Rightarrow> (Inl (fromJsonRpcError err), sent')
              | None \<Rightarrow>
                  (case resp_result response of
                     None \<Rightarrow>
                       (Inl (PaymeError ''Received empty result from Payme API.'' (- 32000) None),
                        sent')
                   | Some r \<Rightarrow> (Inr r, sent'))))"

text \<open>
  \<^verbatim>\<open>PaymeClient.chargeFromCardToken\<close>: \<^verbatim>\<open>receipts.create\<close>, the read of
  \<^verbatim>\<open>createResult.receipt._id\<close> (a \<^verbatim>\<open>TypeError\<close> when there is no receipt), the
  check of the receipt id (\<^verbatim>\<open>!receiptId\<close> holds of \<^verbatim>\<open>undefined\<close> and of the
  empty string), then \<^verbatim>\<open>receipts.pay\<close> and the read of \<^verbatim>\<open>payResult.receipt._id\<close>.
\<close>

definition PaymeClient_chargeFromCardToken ::
  "PaymeConfig \<Rightarrow> PaymeCreateReceiptResult PaymeEnv \<Rightarrow> ProcessPaymentParams
     \<Rightarrow> PaymeHttpCall list \<Rightarrow> (thrown + ProcessedReceiptResult) \<times> PaymeHttpCall list" where
  "PaymeClient_chargeFromCardToken config env params sent =
     (let createReceiptParams =
            \<lparr>cr_amount = js_times (amount params) (Finite 100),
             cr_account_order_id = orderId params,
             cr_description = ''Payment for order '' @ orderId params\<rparr>
      in case PaymeClient_request config env ''receipts.create''
                (CreateReceiptParams createReceiptParams) sent of
           (Inl e, sent1) \<Rightarrow> (Inl e, sent1)
         | (Inr createResult, sent1) \<Rightarrow>
             (case receipt createResult of
                None \<Rightarrow> (Inl (TypeError (property_read_text env ''_id'')), sent1)
              | Some createdReceipt \<Rightarrow>
                  (case receipt_id createdReceipt of
                     None \<Rightarrow>
                       (Inl (PaymeError ''Failed to create receipt.'' (- 32001) None), sent1)
                   | Some receiptId \<Rightarrow>
                       if receiptId = [] then
                         (Inl (PaymeError ''Failed to create receipt.'' (- 32001) None), sent1)
                       else
                         (let payReceiptParams =
                                \<lparr>pay_id = receiptId, pay_token = cardToken params\<rparr>
                          in case PaymeClient_request config env ''receipts.pay''
                                    (PayReceiptParams payReceiptParams) sent1 of
                               (Inl e, sent2) \<Rightarrow> (Inl e, sent2)
                             | (Inr payResult, sent2) \<Rightarrow>
                                 (case receipt payResult of
                                    None \<Rightarrow>
                                      (Inl (TypeError (property_read_text env ''_id'')), sent2)
                                  | Some paidReceipt \<Rightarrow>
                                      (Inr \<lparr>transactionId = receipt_id paidReceipt,
                                            status = getStatusFromPaymeReceiptState
                                                       (Some (Finite (state paidReceipt))),
                                            pr_receipt = paidReceipt\<rparr>,
                                       sent2))))))"

text \<open>The RPC methods of a list of POSTs, in the order they were issued.\<close>

definition methods_of :: "PaymeHttpCall list \<Rightarrow> string list" where
  "methods_of sent = map (\<lambda>c. req_method (call_body c)) sent"

section \<open>Click client (src/click/ClickClient.ts, src/click/utils.ts)\<close>

text \<open>The decimal rendering of a non-negative whole number, as string concatenation gives it.\<close>

definition digit_char :: "nat \<Rightarrow> char" where
  "digit_char d = char_of (of_char CHR ''0'' + d)"

fun decimal :: "nat \<Rightarrow> string" where
  "decimal n = (if 10 \<le> n then decimal (n div 10) else []) @ [digit_char (n mod 10)]"

declare decimal.simps [simp del]

record ClickConfig =
  click_merchantId :: string
  click_merchantUserId :: string
  click_secretKey :: string
  click_serviceId :: string
  click_testMode :: "bool option"

record CreateCardTokenParams =
  cardNumber :: string
  expireDate :: string
  save :: "bool option"

text \<open>
  The response shapes of click/types.ts. \<^verbatim>\<open>card_token\<close> is optional because the client
  tests it for absence.
\<close>

record ClickCreateCardTokenResponse =
  card_token :: "string option"
  phone_number :: string
  card_number :: string
  temporary :: rat
  tok_error_code :: rat
  tok_error_note :: string

record ClickChargeFromCardTokenResponse =
  payment_id :: rat
  payment_status :: rat
  error_code :: rat
  error_note :: string

record ProcessedPaymentResult =
  pp_transactionId :: rat
  pp_status :: PaymentStatus

record CardTokenResult =
  ct_cardToken :: string
  requiresVerification :: bool

datatype http_method = POST | GET | DELETE

datatype ClickRequestBody =
    CardTokenRequest (rb_card_number: string) (rb_expire_date: string) (rb_temporary: nat)
      (rb_service_id: string)
  | CardTokenPayment (rb_service_id: string) (rb_card_token: string) (rb_amount: number)
      (rb_transaction_parameter: string)

record ClickHttpCall =
  http_verb :: http_method
  http_endpoint :: string
  http_body :: "ClickRequestBody option"
  http_headers :: "(string \<times> string) list"

text \<open>
  The world outside the Click client: the clock (\<^verbatim>\<open>Date.now()\<close>, in milliseconds),
  the SHA-1 of the platform's \<^verbatim>\<open>crypto\<close> module as a hex string, and the transport,
  which throws or returns the decoded body.
\<close>

record 'r ClickEnv =
  date_now :: nat
  sha1_hex :: "string \<Rightarrow> string"
  click_http :: "ClickHttpCall \<Rightarrow> thrown + 'r"

definition getDigestAuthToken :: "(string \<Rightarrow> string) \<Rightarrow> nat \<Rightarrow> string \<Rightarrow> string \<Rightarrow> string" where
  "getDigestAuthToken sha1 now merchantUserId secretKey =
     (let timestamp = now div 1000;
          digest = sha1 (decimal timestamp @ secretKey)
      in merchantUserId @ '':'' @ digest @ '':'' @ decimal timestamp)"

text \<open>
  \<^verbatim>\<open>ClickClient.request\<close>: whatever the transport throws is thrown again as a plain
  \<^verbatim>\<open>Error\<close>, with the message prefixed when the thrown value is an \<^verbatim>\<open>Error\<close> object.
\<close>

definition ClickClient_request ::
  "ClickConfig \<Rightarrow> 'r ClickEnv \<Rightarrow> http_method \<Rightarrow> string \<Rightarrow> ClickRequestBody option
     \<Rightarrow> thrown + 'r" where
  "ClickClient_request config env method endpoint body =
     (let headers =
            [(''Auth'', getDigestAuthToken (sha1_hex env) (date_now env)
                          (click_merchantUserId config) (click_secretKey config))];
          call = \<lparr>http_verb = method, http_endpoint = endpoint,
                  http_body = (if method = POST then body else None),
                  http_headers = headers\<rparr>
      in case click_http env call of
           Inr response \<Rightarrow> Inr response
         | Inl error \<Rightarrow>
             (case error_message error of
                Some m \<Rightarrow> Inl (Error (''Click API request failed: '' @ m))
              | None \<Rightarrow> Inl (Error ''An unknown error occurred during the Click API request.'')))"

text \<open>
  \<^verbatim>\<open>ClickClient.createCardToken\<close>: \<^verbatim>\<open>response.error_code < 0 || !response.card_token\<close>
  throws; otherwise the token comes back with \<^verbatim>\<open>requiresVerification: true\<close>.
\<close>

definition ClickClient_createCardToken ::
  "ClickConfig \<Rightarrow> ClickCreateCardTokenResponse ClickEnv \<Rightarrow> CreateCardTokenParams
     \<Rightarrow> thrown + CardTokenResult" where
  "ClickClient_createCardToken config env params =
     (case ClickClient_request config env POST ''/card_token/request''
             (Some (CardTokenRequest (cardNumber params) (expireDate params)
                      (if (case save params of None \<Rightarrow> True | Some b \<Rightarrow> b) then 0 else 1)
                      (click_serviceId config))) of
        Inl e \<Rightarrow> Inl e
      | Inr response \<Rightarrow>
          (case card_token response of
             None \<Rightarrow> Inl (ClickError (tok_error_note response) (tok_error_code response))
           | Some token \<Rightarrow>
               if tok_error_code response < 0 \<or> token = [] then
                 Inl (ClickError (tok_error_note response) (tok_error_code response))
               else Inr \<lparr>ct_cardToken = token, requiresVerification = True\<rparr>))"

text \<open>
  \<^verbatim>\<open>ClickClient.chargeFromCardToken\<close>:
  \<^verbatim>\<open>response.error_code < 0 || (response.payment_status !== 2 && response.error_code === 0)\<close>
  throws.
\<close>

definition ClickClient_chargeFromCardToken ::
  "ClickConfig \<Rightarrow> ClickChargeFromCardTokenResponse ClickEnv \<Rightarrow> ProcessPaymentParams
     \<Rightarrow> thrown + ProcessedPaymentResult" where
  "ClickClient_chargeFromCardToken config env params =
     (case ClickClient_request config env POST ''/card_token/payment''
             (Some (CardTokenPayment (click_serviceId config) (cardToken params)
                      (amount params) (orderId params))) of
        Inl e \<Rightarrow> Inl e
      | Inr response \<Rightarrow>
          if error_code response < 0 \<or>
             (payment_status response \<noteq> 2 \<and> error_code response = 0) then
            Inl (ClickError (error_note response) (error_code response))
          else
            Inr \<lparr>pp_transactionId = payment_id response,
                 pp_status = getStatusFromClickCode (Some (Finite (payment_status response)))\<rparr>)"

section \<open>Click webhook (src/click/utils.ts, src/click/ClickWebhookHandler.ts)\<close>

datatype ClickWebhookAction = Prepare | Complete

fun action_number :: "ClickWebhookAction \<Rightarrow> nat" where
  "action_number Prepare = 0"
| "action_number Complete = 1"

record ClickWebhookBody =
  click_trans_id :: string
  service_id :: string
  click_paydoc_id :: string
  merchant_trans_id :: string
  wh_amount :: string
  action :: ClickWebhookAction
  wh_error :: rat
  wh_error_note :: string
  sign_time :: string
  sign_string :: string
  merchant_prepare_id :: "string option"

text \<open>\<^verbatim>\<open>Array.prototype.join\<close> on strings.\<close>

fun join :: "string \<Rightarrow> string list \<Rightarrow> string" where
  "join sep [] = []"
| "join sep [x] = x"
| "join sep (x # y # ys) = x @ sep @ join sep (y # ys)"

text \<open>
  The array that \<^verbatim>\<open>verifyWebhookSignature\<close> joins. The spread
  \<^verbatim>\<open>...(action === 1 && merchant_prepare_id ? [merchant_prepare_id] : [])\<close> adds the
  prepare id when the action is 1 and the id is defined and not empty.
\<close>

definition signed_fields :: "ClickWebhookBody \<Rightarrow> string \<Rightarrow> string list" where
  "signed_fields body secretKey =
     [click_trans_id body, service_id body, secretKey, merchant_trans_id body]
     @ (case merchant_prepare_id body of
          Some p \<Rightarrow> if action_number (action body) = 1 \<and> p \<noteq> [] then [p] else []
        | None \<Rightarrow> [])
     @ [wh_amount body, decimal (action_number (action body)), sign_time body]"

text \<open>
  \<^verbatim>\<open>verifyWebhookSignature\<close>; \<open>md5\<close> is the platform's
  \<^verbatim>\<open>crypto.createHash('md5').update(s).digest('hex')\<close>.
\<close>

definition verifyWebhookSignature ::
  "(string \<Rightarrow> string) \<Rightarrow> ClickWebhookBody \<Rightarrow> string \<Rightarrow> bool" where
  "verifyWebhookSignature md5 body secretKey =
     (let stringToHash = join ''|'' (signed_fields body secretKey);
          generatedHash = md5 stringToHash
      in generatedHash = sign_string body)"

text \<open>\<^verbatim>\<open>ClickWebhookHandler\<close>: the constructor and \<^verbatim>\<open>verifySignature\<close>.\<close>

definition new_ClickWebhookHandler :: "string \<Rightarrow> thrown + string" where
  "new_ClickWebhookHandler secretKey =
     (if secretKey = [] then Inl (Error ''ClickWebhookHandler: secretKey is required.'')
      else Inr secretKey)"

definition verifySignature ::
  "(string \<Rightarrow> string) \<Rightarrow> string \<Rightarrow> ClickWebhookBody \<Rightarrow> thrown + unit" where
  "verifySignature md5 secretKey body =
     (let isValid = verifyWebhookSignature md5 body secretKey
      in if \<not> isValid then Inl (ClickError ''Invalid webhook signature.'' (- 1))
         else Inr ())"

section \<open>Payme webhook handler (src/payme/PaymeWebhookHandler.ts)\<close>

text \<open>\<^verbatim>\<open>String.prototype.split\<close> with a one-character separator.\<close>

fun split_on :: "char \<Rightarrow> string \<Rightarrow> string list" where
  "split_on d [] = [[]]"
| "split_on d (c # cs) =
     (if c = d then [] # split_on d cs
      else (case split_on d cs of
              p # ps \<Rightarrow> (c # p) # ps
            | [] \<Rightarrow> [[c]]))"

text \<open>
  The platform's \<^verbatim>\<open>Buffer.from(s, 'base64').toString('ascii')\<close>, for concrete headers:
  characters outside the alphabet are skipped, \<^verbatim>\<open>=\<close> ends the input, both the
  standard and the URL-safe alphabet are read, and each byte is shown by its low seven
  bits. The handler below takes the decoder as an argument, so what is proved of it
  holds of every decoder.
\<close>

definition base64_value :: "char \<Rightarrow> nat option" where
  "base64_value c =
     (let n = (of_char c :: nat)
      in if 65 \<le> n \<and> n \<le> 90 then Some (n - 65)
         else if 97 \<le> n \<and> n \<le> 122 then Some (n - 71)
         else if 48 \<le> n \<and> n \<le> 57 then Some (n + 4)
         else if n = 43 \<or> n = 45 then Some 62
         else if n = 47 \<or> n = 95 then Some 63
         else None)"

fun base64_sextets :: "string \<Rightarrow> nat list" where
  "base64_sextets [] = []"
| "base64_sextets (c # cs) =
     (if c = CHR ''='' then []
      else (case base64_value c of
              Some v \<Rightarrow> v # base64_sextets cs
            | None \<Rightarrow> base64_sextets cs))"

fun base64_bytes :: "nat list \<Rightarrow> nat list" where
  "base64_bytes (a # b # c # d # rest) =
     (a * 4 + b div 16) # ((b mod 16) * 16 + c div 4) # ((c mod 4) * 64 + d)
       # base64_bytes rest"
| "base64_bytes [a, b, c] = [a * 4 + b div 16, (b mod 16) * 16 + c div 4]"
| "base64_bytes [a, b] = [a * 4 + b div 16]"
| "base64_bytes _ = []"

definition base64_ascii :: "string \<Rightarrow> string" where
  "base64_ascii s = map (\<lambda>b. char_of (b mod 128)) (base64_bytes (base64_sextets s))"

text \<open>
  Truthiness of a value, and the reading of a property. A read on \<^verbatim>\<open>null\<close> or
  \<^verbatim>\<open>undefined\<close> throws a \<^verbatim>\<open>TypeError\<close> whose text is the engine's
  (the argument \<open>txt\<close>, of the value and the property); the properties read here (\<^verbatim>\<open>id\<close>, \<^verbatim>\<open>method\<close>,
  \<^verbatim>\<open>params\<close>, \<^verbatim>\<open>message\<close>) exist on objects only.
\<close>

fun truthy :: "json option \<Rightarrow> bool" where
  "truthy None = False"
| "truthy (Some JNull) = False"
| "truthy (Some (JBool b)) = b"
| "truthy (Some (JNum n)) = (n \<noteq> 0)"
| "truthy (Some (JStr s)) = (s \<noteq> [])"
| "truthy (Some (JArr _)) = True"
| "truthy (Some (JObj _)) = True"

fun js_get ::
  "(json option \<Rightarrow> string \<Rightarrow> string) \<Rightarrow> json option \<Rightarrow> string \<Rightarrow> thrown + json option" where
  "js_get txt None k = Inl (TypeError (txt None k))"
| "js_get txt (Some JNull) k = Inl (TypeError (txt (Some JNull) k))"
| "js_get txt (Some (JObj props)) k = Inr (map_of props k)"
| "js_get txt (Some _) k = Inr None"

text \<open>\<^verbatim>\<open>v?.k\<close>: \<^verbatim>\<open>undefined\<close> on \<^verbatim>\<open>null\<close> and \<^verbatim>\<open>undefined\<close>.\<close>

fun js_get_opt :: "json option \<Rightarrow> string \<Rightarrow> json option" where
  "js_get_opt (Some (JObj props)) k = map_of props k"
| "js_get_opt _ k = None"

text \<open>
  The caller's business logic (\<^verbatim>\<open>PaymeWebhookLogic\<close>): six operations on the
  parameters and the request id, each of which returns \<^verbatim>\<open>{result}\<close> or
  \<^verbatim>\<open>{error}\<close>, or throws, and may change the caller's own state \<open>'s\<close>.
\<close>

datatype logic_reply = Result json | ErrorReply PaymeJsonRpcError

type_synonym 's logic_operation =
  "json option \<Rightarrow> json option \<Rightarrow> 's \<Rightarrow> (thrown + logic_reply) \<times> 's"

record 's PaymeWebhookLogic =
  checkPerformTransaction :: "'s logic_operation"
  createTransaction :: "'s logic_operation"
  performTransaction :: "'s logic_operation"
  cancelTransaction :: "'s logic_operation"
  checkTransaction :: "'s logic_operation"
  getStatement :: "'s logic_operation"

record 's PaymeWebhookHandler =
  secretKey :: string
  logic :: "'s PaymeWebhookLogic"

definition new_PaymeWebhookHandler ::
  "string \<Rightarrow> 's PaymeWebhookLogic \<Rightarrow> thrown + 's PaymeWebhookHandler" where
  "new_PaymeWebhookHandler key l =
     (if key = [] then
        Inl (Error ''PaymeWebhookHandler: secretKey and logic implementation are required.'')
      else Inr \<lparr>secretKey = key, logic = l\<rparr>)"

definition PAYME_LOGIN :: string where
  "PAYME_LOGIN = ''Paycom''"

text \<open>
  \<^verbatim>\<open>verifyAuth\<close>. \<^verbatim>\<open>const [login, password] = credentials.split(':')\<close> takes the
  first two pieces of the split; \<^verbatim>\<open>password\<close> is \<^verbatim>\<open>undefined\<close> when there is
  one piece only.
\<close>

definition unauthorized :: "string \<Rightarrow> thrown" where
  "unauthorized detail = PaymeError ''Unauthorized'' (- 32504) (Some (JStr detail))"

definition verifyAuth :: "(string \<Rightarrow> string) \<Rightarrow> string \<Rightarrow> string option \<Rightarrow> thrown + unit" where
  "verifyAuth decode key authHeader =
     (case authHeader of
        None \<Rightarrow> Inl (unauthorized ''Authorization header missing or invalid'')
      | Some h \<Rightarrow>
          if h = [] \<or> take 6 h \<noteq> ''Basic '' then
            Inl (unauthorized ''Authorization header missing or invalid'')
          else
            (let credentials = decode (drop 6 h);
                 pieces = split_on CHR '':'' credentials;
                 login = (case pieces of l # _ \<Rightarrow> Some l | [] \<Rightarrow> None);
                 password = (case pieces of _ # p # _ \<Rightarrow> Some p | _ \<Rightarrow> None)
             in if login \<noteq> Some PAYME_LOGIN \<or> password \<noteq> Some key then
                  Inl (unauthorized ''Invalid login or password'')
                else Inr ()))"

text \<open>
  The world of one \<^verbatim>\<open>handle\<close> call: the caller's state and the record of the
  operations of the business logic that were invoked, with their arguments.
\<close>

datatype PaymeWebhookMethod =
    CheckPerformTransaction
  | CreateTransaction
  | PerformTransaction
  | CancelTransaction
  | CheckTransaction
  | GetStatement

record 's HandlerWorld =
  logic_state :: 's
  invoked :: "(PaymeWebhookMethod \<times> json option \<times> json option) list"

record HandlerEnv =
  buffer_base64_ascii :: "string \<Rightarrow> string"
  handler_now :: rat
  engine_text :: "json option \<Rightarrow> string \<Rightarrow> string"

text \<open>The \<^verbatim>\<open>switch (method)\<close>: strict equality with the six names.\<close>

definition method_of :: "json option \<Rightarrow> PaymeWebhookMethod option" where
  "method_of m =
     (if m = Some (JStr ''CheckPerformTransaction'') then Some CheckPerformTransaction
      else if m = Some (JStr ''CreateTransaction'') then Some CreateTransaction
      else if m = Some (JStr ''PerformTransaction'') then Some PerformTransaction
      else if m = Some (JStr ''CancelTransaction'') then Some CancelTransaction
      else if m = Some (JStr ''CheckTransaction'') then Some CheckTransaction
      else if m = Some (JStr ''GetStatement'') then Some GetStatement
      else None)"

fun operation_of :: "'s PaymeWebhookLogic \<Rightarrow> PaymeWebhookMethod \<Rightarrow> 's logic_operation" where
  "operation_of l CheckPerformTransaction = checkPerformTransaction l"
| "operation_of l CreateTransaction = createTransaction l"
| "operation_of l PerformTransaction = performTransaction l"
| "operation_of l CancelTransaction = cancelTransaction l"
| "operation_of l CheckTransaction = checkTransaction l"
| "operation_of l GetStatement = getStatement l"

text \<open>
  The \<^verbatim>\<open>try\<close> block of \<^verbatim>\<open>handle\<close>: authenticate, destructure the body, dispatch,
  and build \<^verbatim>\<open>{ id, ...response }\<close>.
\<close>

definition handle_try ::
  "'s PaymeWebhookHandler \<Rightarrow> HandlerEnv \<Rightarrow> json option \<Rightarrow> string option \<Rightarrow> 's HandlerWorld
     \<Rightarrow> (thrown + json PaymeJsonRpcResponse) \<times> 's HandlerWorld" where
  "handle_try h env body authorizationHeader w =
     (case verifyAuth (buffer_base64_ascii env) (secretKey h) authorizationHeader of
        Inl e \<Rightarrow> (Inl e, w)
      | Inr _ \<Rightarrow>
          (case js_get (engine_text env) body ''id'' of
             Inl e \<Rightarrow> (Inl e, w)
           | Inr id' \<Rightarrow>
               (let method = js_get_opt body ''method'';
                    params = js_get_opt body ''params''
                in case method_of method of
                     None \<Rightarrow> (Inl (PaymeError ''Method not found'' (- 32601) None), w)
                   | Some m \<Rightarrow>
                       (let (outcome, s') = operation_of (logic h) m params id' (logic_state w);
                            w' = \<lparr>logic_state = s', invoked = invoked w @ [(m, params, id')]\<rparr>
                        in case outcome of
                             Inl e \<Rightarrow> (Inl e, w')
                           | Inr (Result r) \<Rightarrow>
                               (Inr \<lparr>resp_id = id', resp_result = Some r, resp_error = None\<rparr>, w')
                           | Inr (ErrorReply err) \<Rightarrow>
                               (Inr \<lparr>resp_id = id', resp_result = None, resp_error = Some err\<rparr>,
                                w')))))"

text \<open>
  The \<^verbatim>\<open>catch\<close> block. \<^verbatim>\<open>(error as Error).message\<close> is a property read: on an
  \<^verbatim>\<open>Error\<close> object it is the message, on \<^verbatim>\<open>null\<close> and \<^verbatim>\<open>undefined\<close> it
  throws, out of the \<^verbatim>\<open>catch\<close> block and so out of \<^verbatim>\<open>handle\<close>.
\<close>

fun message_property ::
  "(json option \<Rightarrow> string \<Rightarrow> string) \<Rightarrow> thrown \<Rightarrow> thrown + json option" where
  "message_property txt (Thrown v) = js_get txt v ''message''"
| "message_property txt e = Inr (map_option JStr (error_message e))"

definition handle_catch ::
  "HandlerEnv \<Rightarrow> json option \<Rightarrow> thrown \<Rightarrow> thrown + json PaymeJsonRpcResponse" where
  "handle_catch env body error =
     (let jsonRpcError =
            (case error of
               PaymeError m c d \<Rightarrow>
                 Inr \<lparr>err_code = c,
                      err_message = Some \<lparr>ru = None, uz = None, en = Some m\<rparr>,
                      err_data = d\<rparr>
             | _ \<Rightarrow>
                 (case message_property (engine_text env) error of
                    Inl e \<Rightarrow> Inl e
                  | Inr msg \<Rightarrow>
                      Inr \<lparr>err_code = - 32400,
                           err_message =
                             Some \<lparr>ru = None, uz = None, en = Some ''Internal Server Error''\<rparr>,
                           err_data = msg\<rparr>))
      in case jsonRpcError of
           Inl e \<Rightarrow> Inl e
         | Inr err \<Rightarrow>
             Inr \<lparr>resp_id =
                    (if truthy (js_get_opt body ''id'') then js_get_opt body ''id''
                     else Some (JNum (handler_now env))),
                  resp_result = None,
                  resp_error = Some err\<rparr>)"

text \<open>
  \<^verbatim>\<open>PaymeWebhookHandler.handle\<close>. \<open>Inl\<close> is an exception that leaves \<^verbatim>\<open>handle\<close>
  (the returned promise rejects).
\<close>

definition handle ::
  "'s PaymeWebhookHandler \<Rightarrow> HandlerEnv \<Rightarrow> json option \<Rightarrow> string option \<Rightarrow> 's HandlerWorld
     \<Rightarrow> (thrown + json PaymeJsonRpcResponse) \<times> 's HandlerWorld" where
  "handle h env body authorizationHeader w =
     (case handle_try h env body authorizationHeader w of
        (Inr response, w') \<Rightarrow> (Inr response, w')
      | (Inl error, w') \<Rightarrow> (handle_catch env body error, w'))"

section \<open>Example configurations and providers\<close>

definition example_config :: PaymeConfig where
  "example_config =
     \<lparr>merchantId = ''test-merchant-id'', checkoutKey = ''test-checkout-key'',
      merchantApiSecret = ''test-merchant-api-secret'', testMode = None\<rparr>"

definition example_params :: ProcessPaymentParams where
  "example_params =
     \<lparr>cardToken = ''test-card-token'', amount = Finite 1000, orderId = ''order-123''\<rparr>"

definition example_receipt :: "string option \<Rightarrow> rat \<Rightarrow> Receipt" where
  "example_receipt rid st =
     \<lparr>receipt_id = rid, create_time = 1700000000000, pay_time = 0, cancel_time = 0,
      state = st, receipt_amount = 100000\<rparr>"

text \<open>
  The engine's text for a property read on \<^verbatim>\<open>undefined\<close>, and the request ids of
  the examples.
\<close>

definition example_read_text :: "string \<Rightarrow> string" where
  "example_read_text k =
     ''Cannot read properties of undefined (reading '' @ [CHR 0x27] @ k @ [CHR 0x27] @ '')''"

definition example_request_id :: "nat \<Rightarrow> string" where
  "example_request_id n = ''1700000000000-'' @ decimal n"

text \<open>A provider whose answer to every call is a result with no receipt in it.\<close>

definition provider_no_receipt :: "PaymeCreateReceiptResult PaymeEnv" where
  "provider_no_receipt =
     \<lparr>fresh_request_id = example_request_id,
      http_post = (\<lambda>n call.
        Inr \<lparr>resp_id = Some (JStr (req_id (call_body call))),
             resp_result = Some \<lparr>receipt = None\<rparr>,
             resp_error = None\<rparr>),
      property_read_text = example_read_text\<rparr>"

text \<open>A provider that creates the receipt \<open>r-1\<close> and then reports it paid (state 2).\<close>

definition provider_paid :: "PaymeCreateReceiptResult PaymeEnv" where
  "provider_paid =
     \<lparr>fresh_request_id = example_request_id,
      http_post = (\<lambda>n call.
        Inr \<lparr>resp_id = Some (JStr (req_id (call_body call))),
             resp_result =
               Some \<lparr>receipt =
                       Some (example_receipt (Some ''r-1'')
                               (if req_method (call_body call) = ''receipts.pay'' then 2 else 0))\<rparr>,
             resp_error = None\<rparr>),
      property_read_text = example_read_text\<rparr>"

definition example_click_config :: ClickConfig where
  "example_click_config =
     \<lparr>click_merchantId = ''test-merchant-id'', click_merchantUserId = ''test-merchant-user-id'',
      click_secretKey = ''test-secret-key'', click_serviceId = ''test-service-id'',
      click_testMode = None\<rparr>"

text \<open>A Click transport that answers every call with the given decoded body.\<close>

definition click_answers :: "'r \<Rightarrow> 'r ClickEnv" where
  "click_answers response =
     \<lparr>date_now = 1700000000000, sha1_hex = (\<lambda>s. ''da39a3ee5e6b4b0d3255bfef95601890afd80709''),
      click_http = (\<lambda>call. Inr response)\<rparr>"

definition example_charge :: ProcessPaymentParams where
  "example_charge =
     \<lparr>cardToken = ''test-card-token'', amount = Finite 1000, orderId = ''order-123''\<rparr>"

definition charge_response :: "rat \<Rightarrow> rat \<Rightarrow> rat \<Rightarrow> string \<Rightarrow> ClickChargeFromCardTokenResponse" where
  "charge_response pid st code note =
     \<lparr>payment_id = pid, payment_status = st, error_code = code, error_note = note\<rparr>"

definition token_response :: "string option \<Rightarrow> rat \<Rightarrow> string \<Rightarrow> ClickCreateCardTokenResponse" where
  "token_response tok code note =
     \<lparr>card_token = tok, phone_number = ''+998901234567'', card_number = ''8600********1234'',
      temporary = 0, tok_error_code = code, tok_error_note = note\<rparr>"

definition example_card :: CreateCardTokenParams where
  "example_card = \<lparr>cardNumber = ''8600123456781234'', expireDate = ''1228'', save = Some True\<rparr>"

text \<open>Example business logic: a counter of invocations as the caller's state.\<close>

definition allow_all :: "nat logic_operation" where
  "allow_all params requestId s = (Inr (Result (JObj [(''allow'', JBool True)])), Suc s)"

definition rejects_with :: "thrown \<Rightarrow> nat logic_operation" where
  "rejects_with e params requestId s = (Inl e, Suc s)"

definition logic_with :: "nat logic_operation \<Rightarrow> nat PaymeWebhookLogic" where
  "logic_with check =
     \<lparr>checkPerformTransaction = check, createTransaction = allow_all,
      performTransaction = allow_all, cancelTransaction = allow_all,
      checkTransaction = allow_all, getStatement = allow_all\<rparr>"

definition example_handler_env :: HandlerEnv where
  "example_handler_env =
     \<lparr>buffer_base64_ascii = base64_ascii, handler_now = 1700000000000,
      engine_text = (\<lambda>v k. ''Cannot read properties of ''
                              @ (if v = None then ''undefined'' else ''null'')
                              @ '' (reading '' @ [CHR 0x27] @ k @ [CHR 0x27] @ '')'')\<rparr>"

definition example_request :: "json option" where
  "example_request =
     Some (JObj [(''id'', JStr ''131''), (''method'', JStr ''CheckPerformTransaction''),
                 (''params'', JObj [(''amount'', JNum 100000),
                                    (''account'', JObj [(''order_id'', JStr ''order-123'')])])])"

definition fresh_world :: "nat HandlerWorld" where
  "fresh_world = \<lparr>logic_state = 0, invoked = []\<rparr>"

definition example_webhook ::
  "ClickWebhookAction \<Rightarrow> string option \<Rightarrow> string \<Rightarrow> ClickWebhookBody" where
  "example_webhook act prepare_id sign =
     \<lparr>click_trans_id = ''777'', service_id = ''9'', click_paydoc_id = ''555'',
      merchant_trans_id = ''order-123'', wh_amount = ''1000'', action = act, wh_error = 0,
      wh_error_note = ''Success'', sign_time = ''2024-01-01'', sign_string = sign,
      merchant_prepare_id = prepare_id\<rparr>"

section \<open>Properties of the status normalizers\<close>

text \<open>
  C2. Both normalizers follow their provider's table: for Payme, 0, 1 and 5 give PENDING,
  2 gives SUCCESS, 3 and 4 give CANCELLED, 6 gives REFUNDED; for Click, 0 and 1 give
  PENDING, 2 gives SUCCESS, 3 and 5 give CANCELLED, 4 gives REFUNDED. Every other
  argument (undefined, NaN, an infinity, a negative, fractional or larger number) gives
  FAILED, hence neither PENDING nor SUCCESS.
\<close>

theorem status_normalizer_tables:
  "getStatusFromPaymeReceiptState (Some (Finite 0)) = PENDING \<and>
   getStatusFromPaymeReceiptState (Some (Finite 1)) = PENDING \<and>
   getStatusFromPaymeReceiptState (Some (Finite 5)) = PENDING \<and>
   getStatusFromPaymeReceiptState (Some (Finite 2)) = SUCCESS \<and>
   getStatusFromPaymeReceiptState (Some (Finite 3)) = CANCELLED \<and>
   getStatusFromPaymeReceiptState (Some (Finite 4)) = CANCELLED \<and>
   getStatusFromPaymeReceiptState (Some (Finite 6)) = REFUNDED \<and>
   (c \<notin> Some ` Finite ` {0, 1, 2, 3, 4, 5, 6} \<longrightarrow>
      getStatusFromPaymeReceiptState c = FAILED \<and>
      getStatusFromPaymeReceiptState c \<noteq> PENDING \<and>
      getStatusFromPaymeReceiptState c \<noteq> SUCCESS) \<and>
   getStatusFromClickCode (Some (Finite 0)) = PENDING \<and>
   getStatusFromClickCode (Some (Finite 1)) = PENDING \<and>
   getStatusFromClickCode (Some (Finite 2)) = SUCCESS \<and>
   getStatusFromClickCode (Some (Finite 3)) = CANCELLED \<and>
   getStatusFromClickCode (Some (Finite 5)) = CANCELLED \<and>
   getStatusFromClickCode (Some (Finite 4)) = REFUNDED \<and>
   (d \<notin> Some ` Finite ` {0, 1, 2, 3, 4, 5} \<longrightarrow>
      getStatusFromClickCode d = FAILED \<and>
      getStatusFromClickCode d \<noteq> PENDING \<and>
      getStatusFromClickCode d \<noteq> SUCCESS)"
proof -
  have payme: "c \<notin> Some ` Finite ` {0, 1, 2, 3, 4, 5, 6} \<longrightarrow>
      getStatusFromPaymeReceiptState c = FAILED"
    by (cases c rule: getStatusFromPaymeReceiptState.cases) auto
  have click: "d \<notin> Some ` Finite ` {0, 1, 2, 3, 4, 5} \<longrightarrow>
      getStatusFromClickCode d = FAILED"
    by (cases d rule: getStatusFromClickCode.cases) auto
  from payme click show ?thesis by simp
qed

text \<open>The theorem at undefined, at NaN, at \<open>-1\<close>, at \<open>7\<close> and at \<open>5/2\<close>.\<close>

theorem status_normalizer_tables_witness:
  "None \<notin> Some ` Finite ` {0, 1, 2, 3, 4, 5, 6} \<and>
   getStatusFromPaymeReceiptState None = FAILED \<and>
   Some NaN \<notin> Some ` Finite ` {0, 1, 2, 3, 4, 5} \<and>
   getStatusFromClickCode (Some NaN) = FAILED \<and>
   Some (Finite (- 1)) \<notin> Some ` Finite ` {0, 1, 2, 3, 4, 5, 6} \<and>
   getStatusFromPaymeReceiptState (Some (Finite (- 1))) = FAILED \<and>
   Some (Finite 7) \<notin> Some ` Finite ` {0, 1, 2, 3, 4, 5, 6} \<and>
   getStatusFromPaymeReceiptState (Some (Finite 7)) = FAILED \<and>
   Some (Finite (5 / 2)) \<notin> Some ` Finite ` {0, 1, 2, 3, 4, 5} \<and>
   getStatusFromClickCode (Some (Finite (5 / 2))) = FAILED"
  using status_normalizer_tables [of None "Some NaN"]
    status_normalizer_tables [of "Some (Finite (- 1))" "Some (Finite (5 / 2))"]
    status_normalizer_tables [of "Some (Finite 7)" None]
  by auto

section \<open>Properties of the error factory\<close>

text \<open>
  C7, as amended. \<^verbatim>\<open>PaymeError.fromJsonRpcError\<close> takes the first message that is
  present and not empty in the order English, Russian, Uzbek; when there is none, or
  the \<^verbatim>\<open>message\<close> object itself is missing, the message is the fixed string
  \<^verbatim>\<open>Unknown Payme Error\<close>. An error with only a non-empty Russian message gives a
  \<^verbatim>\<open>PaymeError\<close> with that text; code and data are carried over.
\<close>

theorem fromJsonRpcError_priority:
  "fromJsonRpcError \<lparr>err_code = c, err_message = Some \<lparr>ru = r, uz = u, en = e\<rparr>, err_data = d\<rparr> =
     PaymeError
       (if e \<noteq> None \<and> e \<noteq> Some [] then the e
        else if r \<noteq> None \<and> r \<noteq> Some [] then the r
        else if u \<noteq> None \<and> u \<noteq> Some [] then the u
        else ''Unknown Payme Error'') c d
   \<and> fromJsonRpcError \<lparr>err_code = c, err_message = None, err_data = d\<rparr> =
       PaymeError ''Unknown Payme Error'' c d
   \<and> (t \<noteq> [] \<longrightarrow>
        fromJsonRpcError \<lparr>err_code = c, err_message = Some \<lparr>ru = Some t, uz = None, en = None\<rparr>,
                          err_data = d\<rparr> = PaymeError t c d)"
  by (cases e; cases r; cases u) (simp_all add: fromJsonRpcError_def opt_field_def)

text \<open>
  The theorem at an error with a Russian message only, and at one with all three.
\<close>

theorem fromJsonRpcError_priority_witness:
  "''Neverniy zapros'' \<noteq> [] \<and>
   fromJsonRpcError \<lparr>err_code = - 32000,
       err_message = Some \<lparr>ru = Some ''Neverniy zapros'', uz = None, en = None\<rparr>,
       err_data = None\<rparr> = PaymeError ''Neverniy zapros'' (- 32000) None \<and>
   fromJsonRpcError \<lparr>err_code = - 32000,
       err_message = Some \<lparr>ru = Some ''Neverniy zapros'', uz = Some ''Noto'',
                           en = Some ''Invalid request''\<rparr>,
       err_data = None\<rparr> = PaymeError ''Invalid request'' (- 32000) None"
  using fromJsonRpcError_priority
          [of "- 32000" "Some ''Neverniy zapros''" None None None "''Neverniy zapros''"]
        fromJsonRpcError_priority
          [of "- 32000" "Some ''Neverniy zapros''" "Some ''Noto''" "Some ''Invalid request''"
              None "''x''"]
  by simp

text \<open>
  C7 as stated fails: with no message at all the factory's message is
  \<^verbatim>\<open>Unknown Payme Error\<close>, not \<^verbatim>\<open>Unknown error\<close>.
\<close>

theorem fromJsonRpcError_fallback_counterexample:
  "fromJsonRpcError
      \<lparr>err_code = - 32000, err_message = Some \<lparr>ru = None, uz = None, en = None\<rparr>,
       err_data = None\<rparr> = PaymeError ''Unknown Payme Error'' (- 32000) None \<and>
   error_message (fromJsonRpcError
      \<lparr>err_code = - 32000, err_message = Some \<lparr>ru = None, uz = None, en = None\<rparr>,
       err_data = None\<rparr>) \<noteq> Some ''Unknown error''"
  by (simp add: fromJsonRpcError_def opt_field_def)

section \<open>Properties of the Payme charge flow\<close>

text \<open>
  The product at the amounts 1000 and 9007199254740989 and at the double nearest to
  1.15: the first is exact, the other two are rounded.
\<close>

lemma js_times_examples:
  "js_times (Finite 1000) (Finite 100) = Finite 100000"
  "js_times (Finite 9007199254740989) (Finite 100) = Finite 900719925474098944"
  "to_double (115 / 100) = Finite (2589569785738035 / 2251799813685248)"
  "js_times (Finite (2589569785738035 / 2251799813685248)) (Finite 100) =
     Finite (8092405580431359 / 70368744177664)"
  by code_simp+

text \<open>Every request appends exactly the POST it builds to the record of POSTs.\<close>

lemma PaymeClient_request_sent:
  "PaymeClient_request config env method params sent = (res, sent') \<Longrightarrow>
     sent' = sent @ [\<lparr>call_headers = [(''X-Auth'', checkoutKey config)],
                      call_body = \<lparr>req_id = fresh_request_id env (length sent),
                                   req_method = method, req_params = params\<rparr>\<rparr>]"
  by (auto simp: PaymeClient_request_def Let_def split: sum.splits option.splits)

text \<open>
  The two shapes of a charge: the create call alone, or the create call followed by a pay
  call that carries the non-empty receipt id the create call returned. In the first
  shape a create result without a receipt ends in a \<^verbatim>\<open>TypeError\<close>, and one whose
  receipt has a missing or empty id in the \<^verbatim>\<open>PaymeError\<close> -32001.
\<close>

lemma charge_shape:
  assumes run: "PaymeClient_chargeFromCardToken config env params sent = (res, sent')"
  defines "c1 \<equiv> \<lparr>call_headers = [(''X-Auth'', checkoutKey config)],
                 call_body = \<lparr>req_id = fresh_request_id env (length sent),
                              req_method = ''receipts.create'',
                              req_params = CreateReceiptParams
                                \<lparr>cr_amount = js_times (amount params) (Finite 100),
                                 cr_account_order_id = orderId params,
                                 cr_description = ''Payment for order '' @ orderId params\<rparr>\<rparr>\<rparr>"
    and "r1 \<equiv> fst (PaymeClient_request config env ''receipts.create''
                     (CreateReceiptParams
                        \<lparr>cr_amount = js_times (amount params) (Finite 100),
                         cr_account_order_id = orderId params,
                         cr_description = ''Payment for order '' @ orderId params\<rparr>) sent)"
  shows "(sent' = sent @ [c1] \<and>
            (\<forall>r. r1 = Inr r \<longrightarrow>
               (receipt r = None \<and> res = Inl (TypeError (property_read_text env ''_id''))) \<or>
               (\<exists>rc. receipt r = Some rc \<and>
                     (receipt_id rc = None \<or> receipt_id rc = Some []) \<and>
                     res = Inl (PaymeError ''Failed to create receipt.'' (- 32001) None))))
       \<or> (\<exists>r rc rid c2. r1 = Inr r \<and> receipt r = Some rc \<and>
             receipt_id rc = Some rid \<and> rid \<noteq> [] \<and>
             sent' = sent @ [c1, c2] \<and> req_method (call_body c2) = ''receipts.pay'' \<and>
             req_params (call_body c2) =
               PayReceiptParams \<lparr>pay_id = rid, pay_token = cardToken params\<rparr>)"
proof -
  obtain x s1 where req1:
    "PaymeClient_request config env ''receipts.create'' (req_params (call_body c1)) sent = (x, s1)"
    by force
  have x: "x = r1"
    using req1 by (simp add: r1_def c1_def)
  have s1: "s1 = sent @ [c1]"
    using PaymeClient_request_sent [OF req1] by (simp add: c1_def)
  show ?thesis
  proof (cases r1)
    case (Inl e)
    with run req1 s1 x show ?thesis
      by (simp add: PaymeClient_chargeFromCardToken_def c1_def)
  next
    case (Inr createResult)
    show ?thesis
    proof (cases "receipt createResult")
      case None
      with run req1 s1 x Inr show ?thesis
        by (simp add: PaymeClient_chargeFromCardToken_def c1_def)
    next
      case rc: (Some createdReceipt)
      show ?thesis
      proof (cases "receipt_id createdReceipt")
        case None
        with run req1 s1 x Inr rc show ?thesis
          by (simp add: PaymeClient_chargeFromCardToken_def c1_def)
      next
        case (Some rid)
        show ?thesis
        proof (cases "rid = []")
          case True
          with run req1 s1 x Inr rc Some show ?thesis
            by (simp add: PaymeClient_chargeFromCardToken_def c1_def)
        next
          case False
          obtain r2 s2 where req2:
            "PaymeClient_request config env ''receipts.pay''
               (PayReceiptParams \<lparr>pay_id = rid, pay_token = cardToken params\<rparr>) s1 = (r2, s2)"
            by force
          from PaymeClient_request_sent [OF req2] s1 obtain c2 where
            s2: "s2 = sent @ [c1, c2]" and
            m2: "req_method (call_body c2) = ''receipts.pay''" and
            p2: "req_params (call_body c2) =
                   PayReceiptParams \<lparr>pay_id = rid, pay_token = cardToken params\<rparr>"
            by simp
          have "sent' = s2"
            using run req1 req2 x Inr rc Some False
            by (cases r2; cases "receipt (projr r2)")
               (simp_all add: PaymeClient_chargeFromCardToken_def c1_def)
          with s2 m2 p2 Inr rc Some False show ?thesis by auto
        qed
      qed
    qed
  qed
qed

text \<open>
  What holds of every charge, whatever the provider answers. The POSTs added are the
  \<^verbatim>\<open>receipts.create\<close> call alone or that call followed by one \<^verbatim>\<open>receipts.pay\<close>
  call, so the create call is first and any pay call comes strictly after it. When the
  create call succeeds with a receipt whose id is missing or empty, the result is
  \<^verbatim>\<open>PaymeError('Failed to create receipt.', -32001)\<close> and no pay call is issued. A pay
  call is issued only after a create response whose receipt has an id that is not
  empty, and it carries that id.
\<close>

lemma charge_calls_create_then_pay:
  assumes run: "PaymeClient_chargeFromCardToken config env params sent = (res, sent')"
  shows "take (length sent) sent' = sent \<and>
         (methods_of (drop (length sent) sent') = [''receipts.create''] \<or>
          methods_of (drop (length sent) sent') = [''receipts.create'', ''receipts.pay'']) \<and>
         (\<forall>response r rc.
            http_post env (length sent) (sent' ! length sent) = Inr response \<and>
            resp_error response = None \<and> resp_result response = Some r \<and>
            receipt r = Some rc \<and> (receipt_id rc = None \<or> receipt_id rc = Some [])
            \<longrightarrow> res = Inl (PaymeError ''Failed to create receipt.'' (- 32001) None) \<and>
                methods_of (drop (length sent) sent') = [''receipts.create'']) \<and>
         (\<forall>response r.
            http_post env (length sent) (sent' ! length sent) = Inr response \<and>
            resp_error response = None \<and> resp_result response = Some r \<and> receipt r = None
            \<longrightarrow> res = Inl (TypeError (property_read_text env ''_id'')) \<and>
                methods_of (drop (length sent) sent') = [''receipts.create'']) \<and>
         (methods_of (drop (length sent) sent') = [''receipts.create'', ''receipts.pay'']
            \<longrightarrow> (\<exists>response r rc rid.
                  http_post env (length sent) (sent' ! length sent) = Inr response \<and>
                  resp_error response = None \<and> resp_result response = Some r \<and>
                  receipt r = Some rc \<and> receipt_id rc = Some rid \<and> rid \<noteq> [] \<and>
                  req_params (call_body (sent' ! Suc (length sent))) =
                    PayReceiptParams \<lparr>pay_id = rid, pay_token = cardToken params\<rparr>))"
proof -
  define c1 where "c1 =
    \<lparr>call_headers = [(''X-Auth'', checkoutKey config)],
     call_body = \<lparr>req_id = fresh_request_id env (length sent),
                  req_method = ''receipts.create'',
                  req_params = CreateReceiptParams
                    \<lparr>cr_amount = js_times (amount params) (Finite 100),
                     cr_account_order_id = orderId params,
                     cr_description = ''Payment for order '' @ orderId params\<rparr>\<rparr>\<rparr>"
  define r1 where "r1 = fst (PaymeClient_request config env ''receipts.create''
                     (CreateReceiptParams
                        \<lparr>cr_amount = js_times (amount params) (Finite 100),
                         cr_account_order_id = orderId params,
                         cr_description = ''Payment for order '' @ orderId params\<rparr>) sent)"
  have m1: "req_method (call_body c1) = ''receipts.create''"
    by (simp add: c1_def)
  have fwd: "\<And>response r. http_post env (length sent) c1 = Inr response \<Longrightarrow>
      resp_error response = None \<Longrightarrow> resp_result response = Some r \<Longrightarrow> r1 = Inr r"
    unfolding r1_def c1_def by (simp add: PaymeClient_request_def Let_def)
  have bwd: "\<And>r. r1 = Inr r \<Longrightarrow>
      \<exists>response. http_post env (length sent) c1 = Inr response \<and>
        resp_error response = None \<and> resp_result response = Some r"
    unfolding r1_def c1_def
    by (auto simp: PaymeClient_request_def Let_def split: sum.splits option.splits)
  from charge_shape [OF run] consider
    (only_create) "sent' = sent @ [c1]"
      "\<forall>r. r1 = Inr r \<longrightarrow>
         (receipt r = None \<and> res = Inl (TypeError (property_read_text env ''_id''))) \<or>
         (\<exists>rc. receipt r = Some rc \<and>
               (receipt_id rc = None \<or> receipt_id rc = Some []) \<and>
               res = Inl (PaymeError ''Failed to create receipt.'' (- 32001) None))"
  | (create_pay) r rc rid c2 where "r1 = Inr r" "receipt r = Some rc"
      "receipt_id rc = Some rid" "rid \<noteq> []"
      "sent' = sent @ [c1, c2]" "req_method (call_body c2) = ''receipts.pay''"
      "req_params (call_body c2) = PayReceiptParams \<lparr>pay_id = rid, pay_token = cardToken params\<rparr>"
    unfolding c1_def r1_def by blast
  then show ?thesis
  proof cases
    case only_create
    have meths: "methods_of (drop (length sent) sent') = [''receipts.create'']"
      using only_create(1) m1 by (simp add: methods_of_def)
    have at0: "sent' ! length sent = c1"
      using only_create(1) by simp
    have typed: "res = Inl (PaymeError ''Failed to create receipt.'' (- 32001) None)"
      if "http_post env (length sent) c1 = Inr response" "resp_error response = None"
         "resp_result response = Some r" "receipt r = Some rc"
         "receipt_id rc = None \<or> receipt_id rc = Some []" for response r rc
      using fwd [OF that(1-3)] only_create(2) that(4) by auto
    have untyped: "res = Inl (TypeError (property_read_text env ''_id''))"
      if "http_post env (length sent) c1 = Inr response" "resp_error response = None"
         "resp_result response = Some r" "receipt r = None" for response r
      using fwd [OF that(1-3)] only_create(2) that(4) by auto
    show ?thesis
      using meths at0 only_create(1) typed untyped by auto
  next
    case create_pay
    have meths: "methods_of (drop (length sent) sent') = [''receipts.create'', ''receipts.pay'']"
      using create_pay(5,6) m1 by (simp add: methods_of_def)
    have at0: "sent' ! length sent = c1" and at1: "sent' ! Suc (length sent) = c2"
      using create_pay(5) by (simp_all add: nth_append)
    from bwd [OF create_pay(1)] obtain response where resp:
      "http_post env (length sent) c1 = Inr response" "resp_error response = None"
      "resp_result response = Some r"
      by blast
    have same: "\<And>response' r'. http_post env (length sent) c1 = Inr response' \<Longrightarrow>
        resp_result response' = Some r' \<Longrightarrow> r' = r"
      using resp by simp
    have no_typed: "\<not> (receipt r = Some rc' \<and> (receipt_id rc' = None \<or> receipt_id rc' = Some []))"
      for rc'
      using create_pay(2,3,4) by auto
    have no_untyped: "receipt r \<noteq> None"
      using create_pay(2) by simp
    have conj3: "\<forall>response' r' rc'.
            http_post env (length sent) (sent' ! length sent) = Inr response' \<and>
            resp_error response' = None \<and> resp_result response' = Some r' \<and>
            receipt r' = Some rc' \<and> (receipt_id rc' = None \<or> receipt_id rc' = Some [])
            \<longrightarrow> res = Inl (PaymeError ''Failed to create receipt.'' (- 32001) None) \<and>
                methods_of (drop (length sent) sent') = [''receipts.create'']"
    proof (intro allI impI)
      fix response' r' rc'
      assume h: "http_post env (length sent) (sent' ! length sent) = Inr response' \<and>
            resp_error response' = None \<and> resp_result response' = Some r' \<and>
            receipt r' = Some rc' \<and> (receipt_id rc' = None \<or> receipt_id rc' = Some [])"
      then have "r' = r"
        using same [of response' r'] at0 by simp
      with h no_typed [of rc'] show
        "res = Inl (PaymeError ''Failed to create receipt.'' (- 32001) None) \<and>
         methods_of (drop (length sent) sent') = [''receipts.create'']"
        by simp
    qed
    have conj4: "\<forall>response' r'.
            http_post env (length sent) (sent' ! length sent) = Inr response' \<and>
            resp_error response' = None \<and> resp_result response' = Some r' \<and> receipt r' = None
            \<longrightarrow> res = Inl (TypeError (property_read_text env ''_id'')) \<and>
                methods_of (drop (length sent) sent') = [''receipts.create'']"
    proof (intro allI impI)
      fix response' r'
      assume h: "http_post env (length sent) (sent' ! length sent) = Inr response' \<and>
            resp_error response' = None \<and> resp_result response' = Some r' \<and> receipt r' = None"
      then have "r' = r"
        using same [of response' r'] at0 by simp
      with h no_untyped show
        "res = Inl (TypeError (property_read_text env ''_id'')) \<and>
         methods_of (drop (length sent) sent') = [''receipts.create'']"
        by simp
    qed
    have conj5: "\<exists>response r rc rid.
                  http_post env (length sent) (sent' ! length sent) = Inr response \<and>
                  resp_error response = None \<and> resp_result response = Some r \<and>
                  receipt r = Some rc \<and> receipt_id rc = Some rid \<and> rid \<noteq> [] \<and>
                  req_params (call_body (sent' ! Suc (length sent))) =
                    PayReceiptParams \<lparr>pay_id = rid, pay_token = cardToken params\<rparr>"
      using at0 at1 resp create_pay(2,3,4,7) by (intro exI [of _ response] exI [of _ r] exI [of _ rc] exI [of _ rid]) simp
    have conj1: "take (length sent) sent' = sent"
      using create_pay(5) by simp
    show ?thesis
      by (intro conjI impI disjI2) (rule conj1 meths conj3 conj4 conj5)+
  qed
qed

text \<open>
  C1 at a create answer without a receipt: the JSON-RPC response
  \<^verbatim>\<open>{id, result: {}}\<close> passes the checks of \<^verbatim>\<open>request\<close>, and the read of
  \<^verbatim>\<open>createResult.receipt._id\<close> throws the engine's \<^verbatim>\<open>TypeError\<close> before the
  test of the receipt id is reached. The receipt id is missing, and the error is not the
  typed \<^verbatim>\<open>PaymeError\<close> -32001. One POST was issued, the create call; no pay call.
\<close>

theorem create_answer_without_receipt_gives_TypeError:
  "PaymeClient_chargeFromCardToken example_config provider_no_receipt example_params [] =
     (Inl (TypeError ''Cannot read properties of undefined (reading '_id')''),
      [\<lparr>call_headers = [(''X-Auth'', ''test-checkout-key'')],
        call_body = \<lparr>req_id = ''1700000000000-0'', req_method = ''receipts.create'',
                     req_params = CreateReceiptParams
                       \<lparr>cr_amount = Finite 100000, cr_account_order_id = ''order-123'',
                        cr_description = ''Payment for order order-123''\<rparr>\<rparr>\<rparr>])"
proof -
  have zero: "decimal 0 = ''0''"
    by code_simp
  show ?thesis
    by (simp add: PaymeClient_chargeFromCardToken_def PaymeClient_request_def example_config_def
          provider_no_receipt_def example_params_def example_read_text_def
          example_request_id_def zero js_times_examples(1) Let_def del: js_times.simps)
qed

text \<open>
  C8. The first POST of a charge is the \<^verbatim>\<open>receipts.create\<close> call, and its
  \<^verbatim>\<open>amount\<close> is the product of the input amount and 100 as JavaScript computes it:
  for the amount 1000 that is 100000, exactly. When the provider answers the create
  call with a receipt whose id is not empty and answers the pay call for that id with a
  receipt, the charge issues exactly these two calls and returns the pay answer's
  receipt with the normalized status of its state: SUCCESS when the state is 2.
\<close>

theorem charge_amount_times_100_and_paid_status:
  "(\<exists>rest. snd (PaymeClient_chargeFromCardToken config env params sent) =
      sent @ \<lparr>call_headers = [(''X-Auth'', checkoutKey config)],
              call_body = \<lparr>req_id = fresh_request_id env (length sent),
                           req_method = ''receipts.create'',
                           req_params = CreateReceiptParams
                             \<lparr>cr_amount = js_times (amount params) (Finite 100),
                              cr_account_order_id = orderId params,
                              cr_description = ''Payment for order '' @ orderId params\<rparr>\<rparr>\<rparr>
             # rest) \<and>
   js_times (Finite 1000) (Finite 100) = Finite 100000 \<and>
   (amount params = Finite 1000 \<longrightarrow>
      (\<exists>rest. snd (PaymeClient_chargeFromCardToken config env params sent) =
         sent @ \<lparr>call_headers = [(''X-Auth'', checkoutKey config)],
                 call_body = \<lparr>req_id = fresh_request_id env (length sent),
                              req_method = ''receipts.create'',
                              req_params = CreateReceiptParams
                                \<lparr>cr_amount = Finite 100000,
                                 cr_account_order_id = orderId params,
                                 cr_description = ''Payment for order '' @ orderId params\<rparr>\<rparr>\<rparr>
                # rest)) \<and>
   (\<forall>response1 r1 rc1 rid response2 r2 rc2.
      http_post env (length sent)
        \<lparr>call_headers = [(''X-Auth'', checkoutKey config)],
         call_body = \<lparr>req_id = fresh_request_id env (length sent),
                      req_method = ''receipts.create'',
                      req_params = CreateReceiptParams
                        \<lparr>cr_amount = js_times (amount params) (Finite 100),
                         cr_account_order_id = orderId params,
                         cr_description = ''Payment for order '' @ orderId params\<rparr>\<rparr>\<rparr>
        = Inr response1 \<and>
      resp_error response1 = None \<and> resp_result response1 = Some r1 \<and>
      receipt r1 = Some rc1 \<and> receipt_id rc1 = Some rid \<and> rid \<noteq> [] \<and>
      http_post env (Suc (length sent))
        \<lparr>call_headers = [(''X-Auth'', checkoutKey config)],
         call_body = \<lparr>req_id = fresh_request_id env (Suc (length sent)),
                      req_method = ''receipts.pay'',
                      req_params = PayReceiptParams
                        \<lparr>pay_id = rid, pay_token = cardToken params\<rparr>\<rparr>\<rparr>
        = Inr response2 \<and>
      resp_error response2 = None \<and> resp_result response2 = Some r2 \<and>
      receipt r2 = Some rc2
      \<longrightarrow> PaymeClient_chargeFromCardToken config env params sent =
            (Inr \<lparr>transactionId = receipt_id rc2,
                  status = getStatusFromPaymeReceiptState (Some (Finite (state rc2))),
                  pr_receipt = rc2\<rparr>,
             sent @ [\<lparr>call_headers = [(''X-Auth'', checkoutKey config)],
                      call_body = \<lparr>req_id = fresh_request_id env (length sent),
                                   req_method = ''receipts.create'',
                                   req_params = CreateReceiptParams
                                     \<lparr>cr_amount = js_times (amount params) (Finite 100),
                                      cr_account_order_id = orderId params,
                                      cr_description = ''Payment for order '' @ orderId params\<rparr>\<rparr>\<rparr>,
                     \<lparr>call_headers = [(''X-Auth'', checkoutKey config)],
                      call_body = \<lparr>req_id = fresh_request_id env (Suc (length sent)),
                                   req_method = ''receipts.pay'',
                                   req_params = PayReceiptParams
                                     \<lparr>pay_id = rid, pay_token = cardToken params\<rparr>\<rparr>\<rparr>]) \<and>
          (state rc2 = 2 \<longrightarrow>
             getStatusFromPaymeReceiptState (Some (Finite (state rc2))) = SUCCESS))"
proof -
  obtain res sent' where run:
    "PaymeClient_chargeFromCardToken config env params sent = (res, sent')"
    by force
  have first: "\<exists>rest. snd (PaymeClient_chargeFromCardToken config env params sent) =
      sent @ \<lparr>call_headers = [(''X-Auth'', checkoutKey config)],
              call_body = \<lparr>req_id = fresh_request_id env (length sent),
                           req_method = ''receipts.create'',
                           req_params = CreateReceiptParams
                             \<lparr>cr_amount = js_times (amount params) (Finite 100),
                              cr_account_order_id = orderId params,
                              cr_description = ''Payment for order '' @ orderId params\<rparr>\<rparr>\<rparr>
             # rest"
    using charge_shape [OF run] run by auto
  have thousand: "\<exists>rest. snd (PaymeClient_chargeFromCardToken config env params sent) =
         sent @ \<lparr>call_headers = [(''X-Auth'', checkoutKey config)],
                 call_body = \<lparr>req_id = fresh_request_id env (length sent),
                              req_method = ''receipts.create'',
                              req_params = CreateReceiptParams
                                \<lparr>cr_amount = Finite 100000,
                                 cr_account_order_id = orderId params,
                                 cr_description = ''Payment for order '' @ orderId params\<rparr>\<rparr>\<rparr>
                # rest"
    if "amount params = Finite 1000"
    using first js_times_examples(1) that by (simp del: js_times.simps)
  have paid: "PaymeClient_chargeFromCardToken config env params sent =
            (Inr \<lparr>transactionId = receipt_id rc2,
                  status = getStatusFromPaymeReceiptState (Some (Finite (state rc2))),
                  pr_receipt = rc2\<rparr>,
             sent @ [\<lparr>call_headers = [(''X-Auth'', checkoutKey config)],
                      call_body = \<lparr>req_id = fresh_request_id env (length sent),
                                   req_method = ''receipts.create'',
                                   req_params = CreateReceiptParams
                                     \<lparr>cr_amount = js_times (amount params) (Finite 100),
                                      cr_account_order_id = orderId params,
                                      cr_description = ''Payment for order '' @ orderId params\<rparr>\<rparr>\<rparr>,
                     \<lparr>call_headers = [(''X-Auth'', checkoutKey config)],
                      call_body = \<lparr>req_id = fresh_request_id env (Suc (length sent)),
                                   req_method = ''receipts.pay'',
                                   req_params = PayReceiptParams
                                     \<lparr>pay_id = rid, pay_token = cardToken params\<rparr>\<rparr>\<rparr>])"
    if "http_post env (length sent)
        \<lparr>call_headers = [(''X-Auth'', checkoutKey config)],
         call_body = \<lparr>req_id = fresh_request_id env (length sent),
                      req_method = ''receipts.create'',
                      req_params = CreateReceiptParams
                        \<lparr>cr_amount = js_times (amount params) (Finite 100),
                         cr_account_order_id = orderId params,
                         cr_description = ''Payment for order '' @ orderId params\<rparr>\<rparr>\<rparr>
        = Inr response1"
      "resp_error response1 = None" "resp_result response1 = Some r1"
      "receipt r1 = Some rc1" "receipt_id rc1 = Some rid" "rid \<noteq> []"
      "http_post env (Suc (length sent))
        \<lparr>call_headers = [(''X-Auth'', checkoutKey config)],
         call_body = \<lparr>req_id = fresh_request_id env (Suc (length sent)),
                      req_method = ''receipts.pay'',
                      req_params = PayReceiptParams
                        \<lparr>pay_id = rid, pay_token = cardToken params\<rparr>\<rparr>\<rparr>
        = Inr response2"
      "resp_error response2 = None" "resp_result response2 = Some r2"
      "receipt r2 = Some rc2"
    for response1 r1 rc1 rid response2 r2 rc2
    using that
    by (simp add: PaymeClient_chargeFromCardToken_def PaymeClient_request_def Let_def)
  have two: "getStatusFromPaymeReceiptState (Some (Finite (state rc2))) = SUCCESS"
    if "state rc2 = 2" for rc2 :: Receipt
    using that by simp
  show ?thesis
    apply (intro conjI)
       apply (rule first)
      apply (rule js_times_examples(1))
     apply (intro impI)
     apply (erule thousand)
    apply (intro allI impI conjI)
     apply (elim conjE)
     apply (erule (9) paid)
    apply (erule two)
    done
qed

text \<open>
  The theorem at the amount 1000 with a provider that creates the receipt \<open>r-1\<close> and
  reports it paid: the create call carries 100000 and the result is SUCCESS.
\<close>

theorem charge_amount_times_100_and_paid_status_witness:
  "amount example_params = Finite 1000 \<and>
   PaymeClient_chargeFromCardToken example_config provider_paid example_params [] =
     (Inr \<lparr>transactionId = Some ''r-1'', status = SUCCESS,
           pr_receipt = example_receipt (Some ''r-1'') 2\<rparr>,
      [\<lparr>call_headers = [(''X-Auth'', ''test-checkout-key'')],
        call_body = \<lparr>req_id = ''1700000000000-0'', req_method = ''receipts.create'',
                     req_params = CreateReceiptParams
                       \<lparr>cr_amount = Finite 100000, cr_account_order_id = ''order-123'',
                        cr_description = ''Payment for order order-123''\<rparr>\<rparr>\<rparr>,
       \<lparr>call_headers = [(''X-Auth'', ''test-checkout-key'')],
        call_body = \<lparr>req_id = ''1700000000000-1'', req_method = ''receipts.pay'',
                     req_params = PayReceiptParams
                       \<lparr>pay_id = ''r-1'', pay_token = ''test-card-token''\<rparr>\<rparr>\<rparr>])"
proof -
  have ids: "decimal 0 = ''0''" "decimal (Suc 0) = ''1''"
    by code_simp+
  have st: "state (example_receipt (Some ''r-1'') 2) = 2"
    and rid: "receipt_id (example_receipt (Some ''r-1'') 0) = Some ''r-1''"
    and rid2: "receipt_id (example_receipt (Some ''r-1'') 2) = Some ''r-1''"
    by (simp_all add: example_receipt_def)
  show ?thesis
    using charge_amount_times_100_and_paid_status
            [of example_config provider_paid example_params "[]"]
          st rid rid2
    by (simp add: example_config_def provider_paid_def example_params_def
          example_request_id_def ids del: js_times.simps)
qed

section \<open>Properties of the Click client\<close>

text \<open>
  C3. When the transport returns a response to the charge request,
  \<^verbatim>\<open>chargeFromCardToken\<close> returns a result exactly when the error code is not negative
  and, if the error code is zero, the payment status is 2; the result then carries the
  payment id and the normalized status. In every other case it throws
  \<^verbatim>\<open>ClickError(error_note, error_code)\<close>, although the transport call succeeded.
\<close>

theorem click_charge_success_condition:
  assumes transport:
    "click_http env
       \<lparr>http_verb = POST, http_endpoint = ''/card_token/payment'',
        http_body = Some (CardTokenPayment (click_serviceId config) (cardToken params)
                            (amount params) (orderId params)),
        http_headers = [(''Auth'', getDigestAuthToken (sha1_hex env) (date_now env)
                                    (click_merchantUserId config) (click_secretKey config))]\<rparr>
       = Inr response"
  shows "(0 \<le> error_code response \<and>
            (error_code response = 0 \<longrightarrow> payment_status response = 2) \<longrightarrow>
          ClickClient_chargeFromCardToken config env params =
            Inr \<lparr>pp_transactionId = payment_id response,
                 pp_status = getStatusFromClickCode (Some (Finite (payment_status response)))\<rparr>) \<and>
         (\<not> (0 \<le> error_code response \<and>
               (error_code response = 0 \<longrightarrow> payment_status response = 2)) \<longrightarrow>
          ClickClient_chargeFromCardToken config env params =
            Inl (ClickError (error_note response) (error_code response)))"
proof -
  have "ClickClient_request config env POST ''/card_token/payment''
          (Some (CardTokenPayment (click_serviceId config) (cardToken params)
                   (amount params) (orderId params))) = Inr response"
    using transport by (simp add: ClickClient_request_def Let_def)
  then show ?thesis
    by (auto simp: ClickClient_chargeFromCardToken_def)
qed

text \<open>
  The theorem at four responses: confirmed (code 0, status 2), code 0 with status 0,
  a negative code with status 2, and a positive code with status 1.
\<close>

theorem click_charge_success_condition_witness:
  "ClickClient_chargeFromCardToken example_click_config
      (click_answers (charge_response 12345 2 0 ''Success'')) example_charge
     = Inr \<lparr>pp_transactionId = 12345, pp_status = SUCCESS\<rparr> \<and>
   ClickClient_chargeFromCardToken example_click_config
      (click_answers (charge_response 12345 0 0 ''Success'')) example_charge
     = Inl (ClickError ''Success'' 0) \<and>
   ClickClient_chargeFromCardToken example_click_config
      (click_answers (charge_response 0 2 (- 1) ''Payment failed'')) example_charge
     = Inl (ClickError ''Payment failed'' (- 1)) \<and>
   ClickClient_chargeFromCardToken example_click_config
      (click_answers (charge_response 7 1 5 ''Note'')) example_charge
     = Inr \<lparr>pp_transactionId = 7, pp_status = PENDING\<rparr>"
  using click_charge_success_condition
      [of "click_answers (charge_response 12345 2 0 ''Success'')" example_click_config
          example_charge "charge_response 12345 2 0 ''Success''"]
    click_charge_success_condition
      [of "click_answers (charge_response 12345 0 0 ''Success'')" example_click_config
          example_charge "charge_response 12345 0 0 ''Success''"]
    click_charge_success_condition
      [of "click_answers (charge_response 0 2 (- 1) ''Payment failed'')" example_click_config
          example_charge "charge_response 0 2 (- 1) ''Payment failed''"]
    click_charge_success_condition
      [of "click_answers (charge_response 7 1 5 ''Note'')" example_click_config
          example_charge "charge_response 7 1 5 ''Note''"]
  by (simp add: click_answers_def charge_response_def)

text \<open>
  C9. Every result that \<^verbatim>\<open>createCardToken\<close> returns has
  \<^verbatim>\<open>requiresVerification\<close> true; and when the transport returns a response with a
  non-negative error code and a token that is present and not empty, the call does
  return: that token, with \<^verbatim>\<open>requiresVerification\<close> true, whatever the other
  fields of the response are.
\<close>

theorem click_token_requires_verification:
  "(\<forall>result. ClickClient_createCardToken config env params = Inr result \<longrightarrow>
       requiresVerification result = True) \<and>
   (click_http env
       \<lparr>http_verb = POST, http_endpoint = ''/card_token/request'',
        http_body = Some (CardTokenRequest (cardNumber params) (expireDate params)
                            (if (case save params of None \<Rightarrow> True | Some b \<Rightarrow> b) then 0 else 1)
                            (click_serviceId config)),
        http_headers = [(''Auth'', getDigestAuthToken (sha1_hex env) (date_now env)
                                    (click_merchantUserId config) (click_secretKey config))]\<rparr>
       = Inr response \<and>
     0 \<le> tok_error_code response \<and> card_token response = Some token \<and> token \<noteq> []
     \<longrightarrow> ClickClient_createCardToken config env params =
           Inr \<lparr>ct_cardToken = token, requiresVerification = True\<rparr>)"
  by (auto simp: ClickClient_createCardToken_def ClickClient_request_def Let_def
           split: sum.splits option.splits if_splits)

text \<open>The theorem at two successful responses that differ in code, note and token.\<close>

theorem click_token_requires_verification_witness:
  "ClickClient_createCardToken example_click_config
      (click_answers (token_response (Some ''test-card-token'') 0 ''Success'')) example_card
     = Inr \<lparr>ct_cardToken = ''test-card-token'', requiresVerification = True\<rparr> \<and>
   ClickClient_createCardToken example_click_config
      (click_answers (token_response (Some ''tok-2'') 3 ''Note'')) example_card
     = Inr \<lparr>ct_cardToken = ''tok-2'', requiresVerification = True\<rparr>"
  using click_token_requires_verification
      [of example_click_config
          "click_answers (token_response (Some ''test-card-token'') 0 ''Success'')"
          example_card "token_response (Some ''test-card-token'') 0 ''Success''"
          "''test-card-token''"]
    click_token_requires_verification
      [of example_click_config
          "click_answers (token_response (Some ''tok-2'') 3 ''Note'')"
          example_card "token_response (Some ''tok-2'') 3 ''Note''" "''tok-2''"]
  by (simp add: click_answers_def token_response_def)

section \<open>Properties of the Click webhook signature\<close>

text \<open>The two action numbers as \<^verbatim>\<open>join\<close> renders them.\<close>

lemma decimal_0_1:
  "decimal 0 = ''0''" "decimal 1 = ''1''" "decimal (Suc 0) = ''1''"
  by code_simp+

text \<open>
  C6. \<^verbatim>\<open>verifySignature\<close> hashes the fields transaction id, service id, secret,
  merchant transaction id, amount, action and sign time, in this order and joined by
  \<^verbatim>\<open>|\<close>, with the merchant prepare id between the merchant transaction id and the
  amount when the action is complete (1) and the id is present and not empty, and
  without it when the id is absent or the action is prepare (0). It returns when the
  hex digest equals \<^verbatim>\<open>sign_string\<close> as a string, and throws
  \<^verbatim>\<open>ClickError('Invalid webhook signature.', -1)\<close> otherwise.
\<close>

theorem click_signature_fields:
  "verifySignature md5 key body =
     (if md5 (click_trans_id body @ ''|'' @ service_id body @ ''|'' @ key @ ''|''
              @ merchant_trans_id body @ ''|''
              @ (case merchant_prepare_id body of
                   Some p \<Rightarrow> if action body = Complete \<and> p \<noteq> [] then p @ ''|'' else []
                 | None \<Rightarrow> [])
              @ wh_amount body @ ''|'' @ (if action body = Complete then ''1'' else ''0'')
              @ ''|'' @ sign_time body)
         = sign_string body
      then Inr ()
      else Inl (ClickError ''Invalid webhook signature.'' (- 1)))"
  by (cases "action body"; cases "merchant_prepare_id body")
     (simp_all add: verifySignature_def verifyWebhookSignature_def signed_fields_def
        decimal_0_1 Let_def)

text \<open>
  The theorem with the identity in place of MD5, so that the digest is the hashed
  string itself: a complete request with prepare id \<open>42\<close>, and a prepare request that
  carries a prepare id, which is left out.
\<close>

theorem click_signature_fields_witness:
  "verifySignature (\<lambda>s. s) ''secret''
     (example_webhook Complete (Some ''42'') ''777|9|secret|order-123|42|1000|1|2024-01-01'')
     = Inr () \<and>
   verifySignature (\<lambda>s. s) ''secret''
     (example_webhook Complete (Some ''42'') ''777|9|secret|order-123|1000|1|2024-01-01'')
     = Inl (ClickError ''Invalid webhook signature.'' (- 1)) \<and>
   verifySignature (\<lambda>s. s) ''secret''
     (example_webhook Prepare (Some ''42'') ''777|9|secret|order-123|1000|0|2024-01-01'')
     = Inr () \<and>
   verifySignature (\<lambda>s. s) ''secret''
     (example_webhook Complete None ''777|9|secret|order-123|1000|1|2024-01-01'')
     = Inr ()"
  using click_signature_fields
          [of "\<lambda>s. s" "''secret''"
              "example_webhook Complete (Some ''42'') ''777|9|secret|order-123|42|1000|1|2024-01-01''"]
        click_signature_fields
          [of "\<lambda>s. s" "''secret''"
              "example_webhook Complete (Some ''42'') ''777|9|secret|order-123|1000|1|2024-01-01''"]
        click_signature_fields
          [of "\<lambda>s. s" "''secret''"
              "example_webhook Prepare (Some ''42'') ''777|9|secret|order-123|1000|0|2024-01-01''"]
        click_signature_fields
          [of "\<lambda>s. s" "''secret''"
              "example_webhook Complete None ''777|9|secret|order-123|1000|1|2024-01-01''"]
  by (simp add: example_webhook_def)

section \<open>Properties of the Payme webhook handler\<close>

text \<open>
  \<^verbatim>\<open>split\<close>: the pieces contain no separator, and the first piece ends at the first
  separator of the string.
\<close>

lemma split_on_not_Nil: "split_on d s \<noteq> []"
  by (induction s) (auto split: list.splits)

lemma split_on_no_sep: "d \<notin> set a \<Longrightarrow> split_on d a = [a]"
  by (induction a) auto

lemma split_on_at_sep: "d \<notin> set a \<Longrightarrow> split_on d (a @ d # t) = a # split_on d t"
  by (induction a) auto

lemma split_on_Cons_D:
  "split_on d s = p # ps \<Longrightarrow>
     d \<notin> set p \<and> ((ps = [] \<and> s = p) \<or> (\<exists>t. s = p @ d # t \<and> ps = split_on d t))"
proof (induction s arbitrary: p ps)
  case Nil
  then show ?case by simp
next
  case (Cons c cs)
  show ?case
  proof (cases "c = d")
    case True
    with Cons.prems show ?thesis
      using split_on_not_Nil [of d cs] by auto
  next
    case False
    obtain q qs where q: "split_on d cs = q # qs"
      using split_on_not_Nil [of d cs] by (cases "split_on d cs") auto
    from Cons.IH [OF q] Cons.prems False q show ?thesis
      by auto
  qed
qed

text \<open>
  The strings whose first two pieces are \<open>l\<close> and \<open>p\<close>: \<open>l\<close>, a separator and \<open>p\<close>,
  followed by nothing or by a separator and anything at all.
\<close>

lemma split_on_two_iff:
  "(\<exists>rest. split_on d s = l # p # rest) \<longleftrightarrow>
     d \<notin> set l \<and> d \<notin> set p \<and> (s = l @ d # p \<or> (\<exists>t. s = l @ d # p @ d # t))"
proof
  assume "\<exists>rest. split_on d s = l # p # rest"
  then obtain rest where s: "split_on d s = l # p # rest" by blast
  from split_on_Cons_D [OF s] obtain t where
    l: "d \<notin> set l" and t: "s = l @ d # t" "p # rest = split_on d t"
    by auto
  from split_on_Cons_D [OF t(2) [symmetric]] have
    "d \<notin> set p \<and> (t = p \<or> (\<exists>t'. t = p @ d # t'))"
    by auto
  with l t(1) show "d \<notin> set l \<and> d \<notin> set p \<and> (s = l @ d # p \<or> (\<exists>t. s = l @ d # p @ d # t))"
    by auto
next
  assume r: "d \<notin> set l \<and> d \<notin> set p \<and> (s = l @ d # p \<or> (\<exists>t. s = l @ d # p @ d # t))"
  then show "\<exists>rest. split_on d s = l # p # rest"
    by (auto simp: split_on_at_sep split_on_no_sep)
qed

text \<open>
  \<^verbatim>\<open>verifyAuth\<close> passes exactly on a header \<^verbatim>\<open>Basic \<close>\<open>x\<close> whose decoded
  credentials split into the login, the configured secret and any further pieces.
\<close>

lemma verifyAuth_ok_iff:
  "verifyAuth decode key header = Inr () \<longleftrightarrow>
     (\<exists>h. header = Some h \<and> take 6 h = ''Basic '' \<and>
          (\<exists>rest. split_on CHR '':'' (decode (drop 6 h)) = PAYME_LOGIN # key # rest))"
proof (cases header)
  case None
  then show ?thesis by (simp add: verifyAuth_def)
next
  case (Some h)
  show ?thesis
  proof (cases "take 6 h = ''Basic ''")
    case False
    with Some show ?thesis by (simp add: verifyAuth_def)
  next
    case True
    then have "h \<noteq> []" by auto
    with Some True show ?thesis
      by (auto simp: verifyAuth_def Let_def split: list.splits)
  qed
qed

text \<open>
  When it does not pass it throws one of two \<^verbatim>\<open>PaymeError\<close>s with code -32504, and
  \<^verbatim>\<open>handle\<close> answers with that error, leaving the business logic and its state alone.
\<close>

lemma verifyAuth_fails:
  "verifyAuth decode key header \<noteq> Inr () \<Longrightarrow>
     verifyAuth decode key header = Inl (unauthorized ''Authorization header missing or invalid'')
     \<or> verifyAuth decode key header = Inl (unauthorized ''Invalid login or password'')"
  by (auto simp: verifyAuth_def Let_def split: option.splits if_splits)

lemma handle_unauthenticated:
  assumes "verifyAuth (buffer_base64_ascii env) (secretKey h) header \<noteq> Inr ()"
  shows "\<exists>detail. handle h env body header w =
           (Inr \<lparr>resp_id = (if truthy (js_get_opt body ''id'') then js_get_opt body ''id''
                             else Some (JNum (handler_now env))),
                 resp_result = None,
                 resp_error = Some \<lparr>err_code = - 32504,
                                     err_message = Some \<lparr>ru = None, uz = None, en = Some ''Unauthorized''\<rparr>,
                                     err_data = Some (JStr detail)\<rparr>\<rparr>, w)"
  using verifyAuth_fails [OF assms]
  by (auto simp: handle_def handle_try_def handle_catch_def unauthorized_def)

text \<open>
  C10. \<^verbatim>\<open>verifyAuth\<close> passes exactly when the header is \<^verbatim>\<open>Basic \<close> followed by
  an encoding of credentials whose pieces, split at every colon, start with
  \<^verbatim>\<open>Paycom\<close> and the configured secret: only the piece between the first and the
  second colon is compared with the secret, so the credentials are
  \<^verbatim>\<open>Paycom:\<close>\<open>secret\<close>, alone or followed by a colon and anything, and the secret has
  no colon in it. So when the configured secret contains a colon, no header passes,
  whatever the decoder, and \<^verbatim>\<open>handle\<close> answers every request with the unauthorized
  error (code -32504), the business logic never invoked.
\<close>

theorem secret_with_colon_never_authenticates:
  "(verifyAuth decode key header = Inr () \<longleftrightarrow>
      (\<exists>h. header = Some h \<and> take 6 h = ''Basic '' \<and>
           (\<exists>rest. split_on CHR '':'' (decode (drop 6 h)) = ''Paycom'' # key # rest))) \<and>
   ((\<exists>rest. split_on CHR '':'' credentials = ''Paycom'' # key # rest) \<longleftrightarrow>
      CHR '':'' \<notin> set key \<and>
      (credentials = ''Paycom:'' @ key \<or> (\<exists>t. credentials = ''Paycom:'' @ key @ '':'' @ t))) \<and>
   (CHR '':'' \<in> set (secretKey h) \<longrightarrow>
      verifyAuth (buffer_base64_ascii env) (secretKey h) authorizationHeader \<noteq> Inr () \<and>
      (\<exists>detail. handle h env body authorizationHeader w =
           (Inr \<lparr>resp_id = (if truthy (js_get_opt body ''id'') then js_get_opt body ''id''
                             else Some (JNum (handler_now env))),
                 resp_result = None,
                 resp_error = Some \<lparr>err_code = - 32504,
                                     err_message = Some \<lparr>ru = None, uz = None, en = Some ''Unauthorized''\<rparr>,
                                     err_data = Some (JStr detail)\<rparr>\<rparr>, w)))"
proof -
  have a: "verifyAuth decode key header = Inr () \<longleftrightarrow>
      (\<exists>h. header = Some h \<and> take 6 h = ''Basic '' \<and>
           (\<exists>rest. split_on CHR '':'' (decode (drop 6 h)) = ''Paycom'' # key # rest))"
    using verifyAuth_ok_iff [of decode key header] by (simp add: PAYME_LOGIN_def)
  have b: "(\<exists>rest. split_on CHR '':'' credentials = ''Paycom'' # key # rest) \<longleftrightarrow>
      CHR '':'' \<notin> set key \<and>
      (credentials = ''Paycom:'' @ key \<or> (\<exists>t. credentials = ''Paycom:'' @ key @ '':'' @ t))"
    using split_on_two_iff [of "CHR '':''" credentials "''Paycom''" key] by simp
  have c: "verifyAuth (buffer_base64_ascii env) (secretKey h) authorizationHeader \<noteq> Inr ()"
    if "CHR '':'' \<in> set (secretKey h)"
  proof
    assume "verifyAuth (buffer_base64_ascii env) (secretKey h) authorizationHeader = Inr ()"
    then obtain l rest where
      "split_on CHR '':'' l = PAYME_LOGIN # secretKey h # rest"
      unfolding verifyAuth_ok_iff by blast
    then have "CHR '':'' \<notin> set (secretKey h)"
      using split_on_two_iff [of "CHR '':''" l PAYME_LOGIN "secretKey h"] by blast
    with that show False by simp
  qed
  from a b c handle_unauthenticated [of env h authorizationHeader body w]
  show ?thesis by blast
qed

text \<open>The decoder at the headers of the examples.\<close>

lemma decode_examples:
  "base64_ascii ''UGF5Y29tOnRlc3Qtc2VjcmV0LWtleQ=='' = ''Paycom:test-secret-key''"
  "base64_ascii ''UGF5Y29tOnRlc3Qtc2VjcmV0LWtleTphbnl0aGluZw=='' = ''Paycom:test-secret-key:anything''"
  "base64_ascii ''UGF5Y29tOmE6Yg=='' = ''Paycom:a:b''"
  by code_simp+

text \<open>The business logic is reached, and its state changed, only past \<^verbatim>\<open>verifyAuth\<close>.\<close>

lemma handle_authenticated_only:
  assumes "handle h env body authorizationHeader w = (out, w')" and "w' \<noteq> w"
  shows "verifyAuth (buffer_base64_ascii env) (secretKey h) authorizationHeader = Inr ()"
proof (rule ccontr)
  assume "verifyAuth (buffer_base64_ascii env) (secretKey h) authorizationHeader \<noteq> Inr ()"
  from handle_unauthenticated [OF this, of body w] assms show False
    by auto
qed

text \<open>
  An authenticated request with one of the six methods: the response is the reply of the
  operation with the request's id, or what the \<^verbatim>\<open>catch\<close> block makes of the thrown
  value.
\<close>

lemma handle_dispatch:
  assumes auth: "verifyAuth (buffer_base64_ascii env) (secretKey h) authorizationHeader = Inr ()"
    and body: "body \<noteq> None" "body \<noteq> Some JNull"
    and meth: "method_of (js_get_opt body ''method'') = Some m"
    and op: "operation_of (logic h) m (js_get_opt body ''params'') (js_get_opt body ''id'')
               (logic_state w) = (outcome, s')"
  shows "handle h env body authorizationHeader w =
           ((case outcome of
               Inr (Result r) \<Rightarrow>
                 Inr \<lparr>resp_id = js_get_opt body ''id'', resp_result = Some r, resp_error = None\<rparr>
             | Inr (ErrorReply err) \<Rightarrow>
                 Inr \<lparr>resp_id = js_get_opt body ''id'', resp_result = None, resp_error = Some err\<rparr>
             | Inl error \<Rightarrow> handle_catch env body error),
            \<lparr>logic_state = s',
             invoked = invoked w @ [(m, js_get_opt body ''params'', js_get_opt body ''id'')]\<rparr>)"
proof -
  have get: "js_get (engine_text env) body ''id'' = Inr (js_get_opt body ''id'')"
    using body by (cases "(engine_text env, body, ''id'')" rule: js_get.cases) auto
  show ?thesis
    using auth get meth op
    by (auto simp: handle_def handle_try_def Let_def split: sum.splits logic_reply.splits)
qed

text \<open>An authenticated request with any other method: the fixed error -32601.\<close>

lemma handle_unknown_method:
  assumes auth: "verifyAuth (buffer_base64_ascii env) (secretKey h) authorizationHeader = Inr ()"
    and body: "body \<noteq> None" "body \<noteq> Some JNull"
    and meth: "method_of (js_get_opt body ''method'') = None"
  shows "handle h env body authorizationHeader w =
           (Inr \<lparr>resp_id = (if truthy (js_get_opt body ''id'') then js_get_opt body ''id''
                             else Some (JNum (handler_now env))),
                 resp_result = None,
                 resp_error = Some \<lparr>err_code = - 32601,
                                     err_message = Some \<lparr>ru = None, uz = None, en = Some ''Method not found''\<rparr>,
                                     err_data = None\<rparr>\<rparr>, w)"
proof -
  have get: "js_get (engine_text env) body ''id'' = Inr (js_get_opt body ''id'')"
    using body by (cases "(engine_text env, body, ''id'')" rule: js_get.cases) auto
  show ?thesis
    using auth get meth
    by (simp add: handle_def handle_try_def handle_catch_def)
qed

text \<open>
  What the \<^verbatim>\<open>catch\<close> block makes of a \<^verbatim>\<open>PaymeError\<close> and of a plain
  \<^verbatim>\<open>Error\<close>; it throws itself exactly when the value caught is \<^verbatim>\<open>undefined\<close> or
  \<^verbatim>\<open>null\<close>.
\<close>

lemma handle_catch_converts:
  "handle_catch env body (PaymeError m c d) =
     Inr \<lparr>resp_id = (if truthy (js_get_opt body ''id'') then js_get_opt body ''id''
                       else Some (JNum (handler_now env))),
          resp_result = None,
          resp_error = Some \<lparr>err_code = c,
                              err_message = Some \<lparr>ru = None, uz = None, en = Some m\<rparr>,
                              err_data = d\<rparr>\<rparr>"
  "handle_catch env body (Error m) =
     Inr \<lparr>resp_id = (if truthy (js_get_opt body ''id'') then js_get_opt body ''id''
                       else Some (JNum (handler_now env))),
          resp_result = None,
          resp_error = Some \<lparr>err_code = - 32400,
                              err_message = Some \<lparr>ru = None, uz = None,
                                                  en = Some ''Internal Server Error''\<rparr>,
                              err_data = Some (JStr m)\<rparr>\<rparr>"
  by (simp_all add: handle_catch_def)

lemma handle_catch_escapes_iff:
  "(\<exists>e. handle_catch env body error = Inl e) \<longleftrightarrow>
     error = Thrown None \<or> error = Thrown (Some JNull)"
proof (cases error)
  case (Thrown v)
  then show ?thesis
    by (cases "(engine_text env, v, ''message'')" rule: js_get.cases)
       (auto simp: handle_catch_def)
qed (auto simp: handle_catch_def)

text \<open>
  C4 at a header whose password is not the configured secret. The credentials
  \<^verbatim>\<open>Paycom:test-secret-key:anything\<close> have the login \<^verbatim>\<open>Paycom\<close> and the password
  \<^verbatim>\<open>test-secret-key:anything\<close>; the configured secret is \<^verbatim>\<open>test-secret-key\<close>.
  \<^verbatim>\<open>handle\<close> authenticates the request and invokes
  \<^verbatim>\<open>checkPerformTransaction\<close>, where the unauthorized error -32504 was due.
\<close>

theorem extra_colon_segment_authenticates:
  "base64_ascii ''UGF5Y29tOnRlc3Qtc2VjcmV0LWtleTphbnl0aGluZw=='' =
     ''Paycom:test-secret-key:anything'' \<and>
   handle \<lparr>secretKey = ''test-secret-key'', logic = logic_with allow_all\<rparr>
       example_handler_env example_request
       (Some ''Basic UGF5Y29tOnRlc3Qtc2VjcmV0LWtleTphbnl0aGluZw=='') fresh_world =
     (Inr \<lparr>resp_id = Some (JStr ''131''),
           resp_result = Some (JObj [(''allow'', JBool True)]),
           resp_error = None\<rparr>,
      \<lparr>logic_state = 1,
       invoked = [(CheckPerformTransaction,
                   Some (JObj [(''amount'', JNum 100000),
                               (''account'', JObj [(''order_id'', JStr ''order-123'')])]),
                   Some (JStr ''131''))]\<rparr>)"
proof -
  have auth: "verifyAuth base64_ascii ''test-secret-key''
                (Some ''Basic UGF5Y29tOnRlc3Qtc2VjcmV0LWtleTphbnl0aGluZw=='') = Inr ()"
    by (simp add: verifyAuth_def decode_examples PAYME_LOGIN_def)
  show ?thesis
    using auth
    by (simp add: decode_examples handle_def handle_try_def example_handler_env_def
          example_request_def fresh_world_def method_of_def logic_with_def allow_all_def)
qed

text \<open>
  C5 at business logic that rejects with \<^verbatim>\<open>undefined\<close> or with \<^verbatim>\<open>null\<close>: the
  \<^verbatim>\<open>catch\<close> block reads \<^verbatim>\<open>.message\<close> of the value caught, which throws a
  \<^verbatim>\<open>TypeError\<close>, and that exception leaves \<^verbatim>\<open>handle\<close> where a JSON-RPC error
  response was due.
\<close>

theorem nullish_rejection_escapes_handle:
  "handle \<lparr>secretKey = ''test-secret-key'', logic = logic_with (rejects_with (Thrown None))\<rparr>
       example_handler_env example_request
       (Some ''Basic UGF5Y29tOnRlc3Qtc2VjcmV0LWtleQ=='') fresh_world =
     (Inl (TypeError ''Cannot read properties of undefined (reading 'message')''),
      \<lparr>logic_state = 1,
       invoked = [(CheckPerformTransaction,
                   Some (JObj [(''amount'', JNum 100000),
                               (''account'', JObj [(''order_id'', JStr ''order-123'')])]),
                   Some (JStr ''131''))]\<rparr>) \<and>
   fst (handle \<lparr>secretKey = ''test-secret-key'',
                logic = logic_with (rejects_with (Thrown (Some JNull)))\<rparr>
          example_handler_env example_request
          (Some ''Basic UGF5Y29tOnRlc3Qtc2VjcmV0LWtleQ=='') fresh_world) =
     Inl (TypeError ''Cannot read properties of null (reading 'message')'')"
proof -
  have auth: "verifyAuth base64_ascii ''test-secret-key''
                (Some ''Basic UGF5Y29tOnRlc3Qtc2VjcmV0LWtleQ=='') = Inr ()"
    by (simp add: verifyAuth_def decode_examples PAYME_LOGIN_def)
  show ?thesis
    using auth
    by (simp add: handle_def handle_try_def handle_catch_def example_handler_env_def
          example_request_def fresh_world_def method_of_def logic_with_def rejects_with_def)
qed

text \<open>
  The theorem at the secret \<^verbatim>\<open>a:b\<close>, which the constructor accepts, with the header
  for \<^verbatim>\<open>Paycom:a:b\<close>, which is refused, beside the header for
  \<^verbatim>\<open>Paycom:test-secret-key\<close>, which passes with the secret \<^verbatim>\<open>test-secret-key\<close>.
\<close>

theorem secret_with_colon_never_authenticates_witness:
  "CHR '':'' \<in> set ''a:b'' \<and>
   new_PaymeWebhookHandler ''a:b'' (logic_with allow_all) =
     Inr \<lparr>secretKey = ''a:b'', logic = logic_with allow_all\<rparr> \<and>
   base64_ascii ''UGF5Y29tOmE6Yg=='' = ''Paycom:a:b'' \<and>
   handle \<lparr>secretKey = ''a:b'', logic = logic_with allow_all\<rparr>
       example_handler_env example_request (Some ''Basic UGF5Y29tOmE6Yg=='') fresh_world =
     (Inr \<lparr>resp_id = Some (JStr ''131''), resp_result = None,
           resp_error = Some \<lparr>err_code = - 32504,
                               err_message = Some \<lparr>ru = None, uz = None, en = Some ''Unauthorized''\<rparr>,
                               err_data = Some (JStr ''Invalid login or password'')\<rparr>\<rparr>,
      fresh_world) \<and>
   verifyAuth base64_ascii ''test-secret-key''
      (Some ''Basic UGF5Y29tOnRlc3Qtc2VjcmV0LWtleQ=='') = Inr ()"
proof -
  have colon: "CHR '':'' \<in> set ''a:b''"
    by simp
  have fails: "verifyAuth base64_ascii ''a:b'' (Some ''Basic UGF5Y29tOmE6Yg=='') =
                 Inl (unauthorized ''Invalid login or password'')"
    by (simp add: verifyAuth_def decode_examples PAYME_LOGIN_def)
  have ok: "verifyAuth base64_ascii ''test-secret-key''
                (Some ''Basic UGF5Y29tOnRlc3Qtc2VjcmV0LWtleQ=='') = Inr ()"
    by (simp add: verifyAuth_def decode_examples PAYME_LOGIN_def)
  show ?thesis
    using secret_with_colon_never_authenticates
            [of base64_ascii "''test-secret-key''" "Some ''Basic UGF5Y29tOnRlc3Qtc2VjcmV0LWtleQ==''"
                "''Paycom:a:b''" "\<lparr>secretKey = ''a:b'', logic = logic_with allow_all\<rparr>"
                example_handler_env "Some ''Basic UGF5Y29tOmE6Yg==''" example_request fresh_world]
          colon fails ok
    by (simp add: decode_examples handle_def handle_try_def handle_catch_def unauthorized_def
          example_handler_env_def example_request_def new_PaymeWebhookHandler_def)
qed

end
